theory Spec2Isabelle
  imports Complex_Main "HOL-Library.AList"
begin

section \<open>Python values and dictionaries\<close>

text \<open>
  The program passes leads, campaigns and update objects around as Python dictionaries
  with string keys (\<^verbatim>\<open>Dict[str, Any]\<close>). A dictionary is an association list in
  insertion order; \<open>AList.update\<close> replaces the value of a key that is present and
  appends a new key at the end, as assignment to a Python dict does. Floats are
  modelled by exact rationals.
\<close>

datatype pyval =
    PNone
  | PBool bool
  | PInt int
  | PFloat rat
  | PStr string
  | PList "pyval list"
  | PDict "(string \<times> pyval) list"

type_synonym pydict = "(string \<times> pyval) list"

text \<open>An exception is represented by its message, \<^verbatim>\<open>str(e)\<close>.\<close>

type_synonym exn = string

text \<open>Truth value of a Python object, as tested by \<^verbatim>\<open>if x\<close> and \<^verbatim>\<open>not x\<close>.\<close>

fun truthy :: "pyval \<Rightarrow> bool" where
  "truthy PNone = False"
| "truthy (PBool b) = b"
| "truthy (PInt i) = (i \<noteq> 0)"
| "truthy (PFloat r) = (r \<noteq> 0)"
| "truthy (PStr s) = (s \<noteq> [])"
| "truthy (PList xs) = (xs \<noteq> [])"
| "truthy (PDict d) = (d \<noteq> [])"

text \<open>\<^verbatim>\<open>d.get(k, default)\<close>; \<^verbatim>\<open>d.get(k)\<close> is \<open>dict_get d k PNone\<close>.\<close>

definition dict_get :: "pydict \<Rightarrow> string \<Rightarrow> pyval \<Rightarrow> pyval" where
  "dict_get d k dflt = (case map_of d k of Some v \<Rightarrow> v | None \<Rightarrow> dflt)"

text \<open>\<^verbatim>\<open>d.update(other)\<close>: the keys of \<open>other\<close> are assigned in order.\<close>

definition dict_update :: "pydict \<Rightarrow> pydict \<Rightarrow> pydict" where
  "dict_update d other = fold (\<lambda>(k, v) acc. AList.update k v acc) other d"

text \<open>The name of a value's type, as it appears in the message of an AttributeError.\<close>

fun type_name :: "pyval \<Rightarrow> string" where
  "type_name PNone = ''NoneType''"
| "type_name (PBool b) = ''bool''"
| "type_name (PInt i) = ''int''"
| "type_name (PFloat r) = ''float''"
| "type_name (PStr s) = ''str''"
| "type_name (PList xs) = ''list''"
| "type_name (PDict d) = ''dict''"

definition attribute_error :: "pyval \<Rightarrow> string \<Rightarrow> exn" where
  "attribute_error v attr =
     [CHR 0x27] @ type_name v @ [CHR 0x27] @ '' object has no attribute '' @
     [CHR 0x27] @ attr @ [CHR 0x27]"

section \<open>The environment: clock and external collaborators\<close>

text \<open>
  Everything outside the repository that the code calls is a field of the environment:
  the JSON codec, the clock, the places-search collaborator, the export collaborator,
  and the libraries and network services used by the validator. A call is a function of
  its arguments. One clock reading serves a whole operation: \<open>current_timestamp\<close> is
  the value of SQL's \<^verbatim>\<open>CURRENT_TIMESTAMP\<close>, \<open>now\<close> that of
  \<^verbatim>\<open>datetime.now().isoformat()\<close>, \<open>stamp\<close> that of
  \<^verbatim>\<open>datetime.now().strftime('%Y%m%d_%H%M%S')\<close>, and \<open>elapsed\<close> is a measured duration
  (a difference of two \<^verbatim>\<open>time.time()\<close> readings).
\<close>

datatype json_result = Parsed pyval | JSONDecodeError | LoadsError exn

record email_info =
  ei_email :: pyval
  ei_local :: pyval
  ei_domain :: pyval
  ei_ascii_email :: pyval
  ei_ascii_local :: pyval
  ei_ascii_domain :: pyval

datatype email_outcome = EmailResult email_info | EmailNotValidError exn | EmailOtherError exn

datatype phone_number_type =
    FIXED_LINE | MOBILE | FIXED_LINE_OR_MOBILE | TOLL_FREE | PREMIUM_RATE | SHARED_COST
  | VOIP | PERSONAL_NUMBER | PAGER | UAN | VOICEMAIL | UNKNOWN

record phone_info =
  pn_is_valid :: bool
  pn_is_possible :: bool
  pn_international :: string
  pn_national :: string
  pn_e164 :: string
  pn_country_code :: int
  pn_national_number :: int
  pn_number_type :: phone_number_type

datatype phone_outcome = PhoneParsed phone_info | NumberParseException exn | PhoneOtherError exn

record response =
  r_status_code :: int
  r_url :: string
  r_content_type :: string
  r_server :: string
  r_elapsed :: rat
  r_text :: string

datatype http_outcome =
    Response response
  | Timeout
  | ConnectionError
  | RequestException exn
  | HttpOtherError exn

datatype event =
    EmailLibCall string
  | DnsLookup pyval
  | PhoneLibCall string pyval
  | HttpGet string

record env =
  current_timestamp :: string
  now :: string
  stamp :: string
  elapsed :: rat
  json_dumps :: "pyval \<Rightarrow> exn + string"
  json_loads :: "pyval \<Rightarrow> json_result"
  search_businesses :: "string \<Rightarrow> string \<Rightarrow> int \<Rightarrow> exn + pydict list"
  export_leads :: "pydict list \<Rightarrow> string \<Rightarrow> exn + string"
  email_validator :: "string \<Rightarrow> email_outcome"
  gethostbyname :: "pyval \<Rightarrow> exn + string"
  phonenumbers :: "string \<Rightarrow> pyval \<Rightarrow> phone_outcome"
  session_get :: "string \<Rightarrow> http_outcome"
  str_of :: "pyval \<Rightarrow> string"

section \<open>The Store (sqlite\_manager.py)\<close>

text \<open>
  A table is the list of its rows in insertion order; a row is the dictionary that
  \<^verbatim>\<open>dict(sqlite3.Row)\<close> yields, with one key per column. \<open>lead_seq\<close> and \<open>run_seq\<close> are
  the AUTOINCREMENT counters. Every method opens its own connection, whose context
  manager commits on return and rolls back when an exception leaves the block: a
  failing method returns \<open>Inl\<close> and the caller goes on with the store it had.
  Column type affinity is not modelled: a bound value is stored as it is, after the
  adaptation of \<open>sql_adapt\<close>.
\<close>

record store =
  campaigns :: "pydict list"
  leads :: "pydict list"
  pipeline_runs :: "pydict list"
  lead_seq :: int
  run_seq :: int

definition campaign_columns :: "string list" where
  "campaign_columns =
     [''id'', ''name'', ''business_type'', ''location'', ''max_results'', ''status'',
      ''created_at'', ''updated_at'', ''completed_at'', ''from_email'', ''total_leads'',
      ''validated_leads'', ''enriched_leads'', ''personalized_leads'',
      ''campaign_created'', ''error_message'']"

definition lead_columns :: "string list" where
  "lead_columns =
     [''id'', ''campaign_id'', ''place_id'', ''name'', ''address'', ''city'', ''state'',
      ''postal_code'', ''country'', ''phone'', ''email'', ''website'', ''category'',
      ''rating'', ''reviews_count'', ''latitude'', ''longitude'', ''status'',
      ''email_valid'', ''phone_valid'', ''company_valid'', ''linkedin_profile'',
      ''research_data'', ''personalized_message'', ''created_at'', ''updated_at'']"

definition json_fields :: "string list" where
  "json_fields = [''linkedin_profile'', ''research_data'', ''personalized_message'']"

text \<open>
  Binding a Python value to a \<^verbatim>\<open>?\<close> parameter: \<^verbatim>\<open>None\<close> is NULL, a bool is the
  integer 0 or 1, an int must fit 64 bits, lists and dicts are refused.
\<close>

fun sql_adapt :: "pyval \<Rightarrow> exn + pyval" where
  "sql_adapt PNone = Inr PNone"
| "sql_adapt (PBool b) = Inr (PInt (if b then 1 else 0))"
| "sql_adapt (PInt i) =
     (if - (2 ^ 63) \<le> i \<and> i < 2 ^ 63 then Inr (PInt i)
      else Inl ''Python int too large to convert to SQLite INTEGER'')"
| "sql_adapt (PFloat r) = Inr (PFloat r)"
| "sql_adapt (PStr s) = Inr (PStr s)"
| "sql_adapt (PList xs) = Inl ''Error binding parameter: type is not supported''"
| "sql_adapt (PDict d) = Inl ''Error binding parameter: type is not supported''"

fun adapt_all :: "pydict \<Rightarrow> exn + pydict" where
  "adapt_all [] = Inr []"
| "adapt_all ((k, v) # rest) =
     (case sql_adapt v of
        Inl e \<Rightarrow> Inl e
      | Inr v' \<Rightarrow> (case adapt_all rest of Inl e \<Rightarrow> Inl e | Inr rest' \<Rightarrow> Inr ((k, v') # rest')))"

text \<open>SQL equality in a WHERE clause: NULL is equal to nothing.\<close>

definition sql_eq :: "pyval \<Rightarrow> pyval \<Rightarrow> bool" where
  "sql_eq a b = (a \<noteq> PNone \<and> b \<noteq> PNone \<and> a = b)"

definition col :: "pydict \<Rightarrow> string \<Rightarrow> pyval" where
  "col row k = dict_get row k PNone"

text \<open>
  \<^verbatim>\<open>UPDATE t SET k1 = ?, ..., updated_at = CURRENT_TIMESTAMP WHERE ...\<close> with the SET
  clause built from the keys of a dictionary. A key that is not a column of the table
  fails the statement (``no such column''), as does a value that cannot be bound.
\<close>

definition set_columns :: "pydict \<Rightarrow> string \<Rightarrow> pydict \<Rightarrow> pydict" where
  "set_columns assignments ts row =
     AList.update ''updated_at'' (PStr ts) (dict_update row assignments)"

definition sql_update ::
  "string list \<Rightarrow> pydict \<Rightarrow> string \<Rightarrow> (pydict \<Rightarrow> bool) \<Rightarrow> pydict list \<Rightarrow> exn + pydict list" where
  "sql_update columns assignments ts matches rows =
     (case filter (\<lambda>k. k \<notin> set columns) (map fst assignments) of
        k # _ \<Rightarrow> Inl (''no such column: '' @ k)
      | [] \<Rightarrow>
          (case adapt_all assignments of
             Inl e \<Rightarrow> Inl e
           | Inr bound \<Rightarrow>
               Inr (map (\<lambda>row. if matches row then set_columns bound ts row else row) rows)))"

subsection \<open>update\_leads\_batch\<close>

text \<open>The loop over the items of one update object that serialises the JSON fields.\<close>

fun process_updates :: "env \<Rightarrow> pydict \<Rightarrow> exn + pydict" where
  "process_updates E [] = Inr []"
| "process_updates E ((key, value) # rest) =
     (if key \<in> set json_fields \<and> value \<noteq> PNone then
        (case json_dumps E value of
           Inl e \<Rightarrow> Inl e
         | Inr s \<Rightarrow>
             (case process_updates E rest of
                Inl e \<Rightarrow> Inl e
              | Inr rest' \<Rightarrow> Inr ((key, PStr s) # rest')))
      else
        (case process_updates E rest of
           Inl e \<Rightarrow> Inl e
         | Inr rest' \<Rightarrow> Inr ((key, value) # rest')))"

text \<open>
  One iteration of the loop of \<^verbatim>\<open>update_leads_batch\<close>: pop \<^verbatim>\<open>'id'\<close>, skip the entry
  when the id is missing or falsy, serialise, and run the UPDATE restricted by
  \<^verbatim>\<open>WHERE id = ? AND campaign_id = ?\<close>.
\<close>

definition update_one_lead :: "env \<Rightarrow> string \<Rightarrow> pydict \<Rightarrow> pydict list \<Rightarrow> exn + pydict list" where
  "update_one_lead E campaign_id update rows =
     (let lead_id = dict_get update ''id'' PNone;
          update' = AList.delete ''id'' update
      in if \<not> truthy lead_id then Inr rows
         else
           (case process_updates E update' of
              Inl e \<Rightarrow> Inl e
            | Inr processed_updates \<Rightarrow>
                if processed_updates = [] then Inr rows
                else
                  (case sql_adapt lead_id of
                     Inl e \<Rightarrow> Inl e
                   | Inr bound_id \<Rightarrow>
                       sql_update lead_columns processed_updates (current_timestamp E)
                         (\<lambda>row. sql_eq (col row ''id'') bound_id \<and>
                                sql_eq (col row ''campaign_id'') (PStr campaign_id))
                         rows)))"

fun update_leads_loop :: "env \<Rightarrow> string \<Rightarrow> pydict list \<Rightarrow> pydict list \<Rightarrow> exn + pydict list" where
  "update_leads_loop E campaign_id [] rows = Inr rows"
| "update_leads_loop E campaign_id (update # updates) rows =
     (case update_one_lead E campaign_id update rows of
        Inl e \<Rightarrow> Inl e
      | Inr rows' \<Rightarrow> update_leads_loop E campaign_id updates rows')"

definition update_leads_batch :: "env \<Rightarrow> string \<Rightarrow> pydict list \<Rightarrow> store \<Rightarrow> exn + store" where
  "update_leads_batch E campaign_id updates s =
     (if updates = [] then Inr s
      else
        (case update_leads_loop E campaign_id updates (leads s) of
           Inl e \<Rightarrow> Inl e
         | Inr rows \<Rightarrow> Inr (s\<lparr>leads := rows\<rparr>)))"


subsection \<open>create\_campaign, update\_campaign, get\_campaign\<close>

text \<open>
  \<^verbatim>\<open>campaign_data.get('id') or f"campaign_{stamp}"\<close>. The method returns a \<^verbatim>\<open>str\<close>; an
  id that is not a string is outside its type and is treated as absent. The INSERT
  fails on a NULL in a NOT NULL column and on an id that is already a primary key.
\<close>

definition not_null :: "string \<Rightarrow> string \<Rightarrow> pydict \<Rightarrow> exn option" where
  "not_null table k row =
     (if col row k = PNone then Some (''NOT NULL constraint failed: '' @ table @ ''.'' @ k)
      else None)"

text \<open>The parameters bound to the INSERT, and the row it creates (with the defaults of
  the columns it does not name).\<close>

definition campaign_values :: "string \<Rightarrow> pydict \<Rightarrow> pydict" where
  "campaign_values campaign_id campaign_data =
     [(''id'', PStr campaign_id),
      (''name'', dict_get campaign_data ''name'' (PStr [])),
      (''business_type'', dict_get campaign_data ''business_type'' (PStr [])),
      (''location'', dict_get campaign_data ''location'' (PStr [])),
      (''max_results'', dict_get campaign_data ''max_results'' (PInt 25)),
      (''from_email'', dict_get campaign_data ''from_email'' PNone),
      (''status'', PStr ''pending'')]"

definition new_campaign_row :: "env \<Rightarrow> pydict \<Rightarrow> pydict" where
  "new_campaign_row E v =
     [(''id'', col v ''id''), (''name'', col v ''name''),
      (''business_type'', col v ''business_type''),
      (''location'', col v ''location''),
      (''max_results'', col v ''max_results''),
      (''status'', col v ''status''),
      (''created_at'', PStr (current_timestamp E)),
      (''updated_at'', PStr (current_timestamp E)),
      (''completed_at'', PNone),
      (''from_email'', col v ''from_email''),
      (''total_leads'', PInt 0), (''validated_leads'', PInt 0),
      (''enriched_leads'', PInt 0), (''personalized_leads'', PInt 0),
      (''campaign_created'', PInt 0), (''error_message'', PNone)]"

definition create_campaign :: "env \<Rightarrow> pydict \<Rightarrow> store \<Rightarrow> exn + (string \<times> store)" where
  "create_campaign E campaign_data s =
     (let campaign_id =
            (case dict_get campaign_data ''id'' PNone of
               PStr i \<Rightarrow> if i \<noteq> [] then i else ''campaign_'' @ stamp E
             | _ \<Rightarrow> ''campaign_'' @ stamp E)
      in case adapt_all (campaign_values campaign_id campaign_data) of
           Inl e \<Rightarrow> Inl e
         | Inr v \<Rightarrow>
             (case List.map_filter (\<lambda>k. not_null ''campaigns'' k v)
                     [''name'', ''business_type'', ''location'', ''max_results''] of
                e # _ \<Rightarrow> Inl e
              | [] \<Rightarrow>
                  if \<exists>r \<in> set (campaigns s). sql_eq (col r ''id'') (PStr campaign_id)
                  then Inl ''UNIQUE constraint failed: campaigns.id''
                  else Inr (campaign_id,
                            s\<lparr>campaigns := campaigns s @ [new_campaign_row E v]\<rparr>)))"

definition update_campaign :: "env \<Rightarrow> string \<Rightarrow> pydict \<Rightarrow> store \<Rightarrow> exn + store" where
  "update_campaign E campaign_id updates s =
     (if updates = [] then Inr s
      else
        (case sql_update campaign_columns updates (current_timestamp E)
                (\<lambda>row. sql_eq (col row ''id'') (PStr campaign_id)) (campaigns s) of
           Inl e \<Rightarrow> Inl e
         | Inr rows \<Rightarrow> Inr (s\<lparr>campaigns := rows\<rparr>)))"

definition get_campaign :: "string \<Rightarrow> store \<Rightarrow> pydict option" where
  "get_campaign campaign_id s =
     (case filter (\<lambda>row. sql_eq (col row ''id'') (PStr campaign_id)) (campaigns s) of
        row # _ \<Rightarrow> Some row
      | [] \<Rightarrow> None)"

subsection \<open>insert\_leads\<close>

definition new_lead_row :: "env \<Rightarrow> int \<Rightarrow> pydict \<Rightarrow> pydict" where
  "new_lead_row E lead_id v =
     [(''id'', PInt lead_id), (''campaign_id'', col v ''campaign_id''),
      (''place_id'', col v ''place_id''), (''name'', col v ''name''),
      (''address'', col v ''address''), (''city'', col v ''city''),
      (''state'', col v ''state''), (''postal_code'', col v ''postal_code''),
      (''country'', col v ''country''), (''phone'', col v ''phone''),
      (''email'', col v ''email''), (''website'', col v ''website''),
      (''category'', col v ''category''), (''rating'', col v ''rating''),
      (''reviews_count'', col v ''reviews_count''), (''latitude'', col v ''latitude''),
      (''longitude'', col v ''longitude''), (''status'', col v ''status''),
      (''email_valid'', PInt 0), (''phone_valid'', PInt 0), (''company_valid'', PInt 0),
      (''linkedin_profile'', PNone), (''research_data'', PNone),
      (''personalized_message'', PNone),
      (''created_at'', PStr (current_timestamp E)),
      (''updated_at'', PStr (current_timestamp E))]"

text \<open>One INSERT of the loop; the row takes the next AUTOINCREMENT id.\<close>

definition insert_lead ::
  "env \<Rightarrow> string \<Rightarrow> pydict \<Rightarrow> pydict list \<times> int \<Rightarrow> exn + pydict list \<times> int" where
  "insert_lead E campaign_id lead acc =
     (case adapt_all
             [(''campaign_id'', PStr campaign_id),
              (''place_id'', dict_get lead ''place_id'' PNone),
              (''name'', dict_get lead ''name'' (PStr [])),
              (''address'', dict_get lead ''address'' PNone),
              (''city'', dict_get lead ''city'' PNone),
              (''state'', dict_get lead ''state'' PNone),
              (''postal_code'', dict_get lead ''postal_code'' PNone),
              (''country'', dict_get lead ''country'' PNone),
              (''phone'', dict_get lead ''phone'' PNone),
              (''email'', dict_get lead ''email'' PNone),
              (''website'', dict_get lead ''website'' PNone),
              (''category'', dict_get lead ''category'' PNone),
              (''rating'', dict_get lead ''rating'' PNone),
              (''reviews_count'', dict_get lead ''reviews_count'' PNone),
              (''latitude'', dict_get lead ''latitude'' PNone),
              (''longitude'', dict_get lead ''longitude'' PNone),
              (''status'', PStr ''new'')] of
        Inl e \<Rightarrow> Inl e
      | Inr v \<Rightarrow>
          (case not_null ''leads'' ''name'' v of
             Some e \<Rightarrow> Inl e
           | None \<Rightarrow> Inr (fst acc @ [new_lead_row E (snd acc + 1) v], snd acc + 1)))"

fun insert_leads_loop ::
  "env \<Rightarrow> string \<Rightarrow> pydict list \<Rightarrow> pydict list \<times> int \<Rightarrow> exn + pydict list \<times> int" where
  "insert_leads_loop E campaign_id [] acc = Inr acc"
| "insert_leads_loop E campaign_id (lead # rest) acc =
     (case insert_lead E campaign_id lead acc of
        Inl e \<Rightarrow> Inl e
      | Inr acc' \<Rightarrow> insert_leads_loop E campaign_id rest acc')"

definition insert_leads :: "env \<Rightarrow> string \<Rightarrow> pydict list \<Rightarrow> store \<Rightarrow> exn + store" where
  "insert_leads E campaign_id new_leads s =
     (if new_leads = [] then Inr s
      else
        (case insert_leads_loop E campaign_id new_leads (leads s, lead_seq s) of
           Inl e \<Rightarrow> Inl e
         | Inr (rows, seq) \<Rightarrow> Inr (s\<lparr>leads := rows, lead_seq := seq\<rparr>)))"

subsection \<open>get\_leads\_by\_campaign\<close>

text \<open>
  The loop over \<open>json_fields\<close> of one fetched row: a truthy column is parsed; a
  JSONDecodeError is caught and leaves \<^verbatim>\<open>None\<close>, any other exception propagates.
\<close>

fun parse_json_fields :: "env \<Rightarrow> string list \<Rightarrow> pydict \<Rightarrow> exn + pydict" where
  "parse_json_fields E [] lead = Inr lead"
| "parse_json_fields E (field # rest) lead =
     (if truthy (dict_get lead field PNone) then
        (case json_loads E (dict_get lead field PNone) of
           Parsed v \<Rightarrow> parse_json_fields E rest (AList.update field v lead)
         | JSONDecodeError \<Rightarrow> parse_json_fields E rest (AList.update field PNone lead)
         | LoadsError e \<Rightarrow> Inl e)
      else parse_json_fields E rest lead)"

fun parse_rows :: "env \<Rightarrow> pydict list \<Rightarrow> exn + pydict list" where
  "parse_rows E [] = Inr []"
| "parse_rows E (row # rows) =
     (case parse_json_fields E json_fields row of
        Inl e \<Rightarrow> Inl e
      | Inr lead \<Rightarrow> (case parse_rows E rows of Inl e \<Rightarrow> Inl e | Inr rest \<Rightarrow> Inr (lead # rest)))"

text \<open>The key of \<^verbatim>\<open>ORDER BY id\<close>.\<close>

definition id_key :: "pydict \<Rightarrow> int" where
  "id_key row = (case col row ''id'' of PInt i \<Rightarrow> i | _ \<Rightarrow> 0)"

text \<open>
  The rows selected by \<^verbatim>\<open>WHERE campaign_id = ? [AND status = ?] ORDER BY id\<close>. The
  status filter is applied only when the \<open>status\<close> argument is truthy.
\<close>

definition select_leads :: "string \<Rightarrow> string option \<Rightarrow> store \<Rightarrow> pydict list" where
  "select_leads campaign_id status s =
     sort_key id_key
       (filter (\<lambda>row. sql_eq (col row ''campaign_id'') (PStr campaign_id) \<and>
                 (case status of
                    None \<Rightarrow> True
                  | Some st \<Rightarrow> st = [] \<or> sql_eq (col row ''status'') (PStr st)))
          (leads s))"

definition get_leads_by_campaign ::
  "env \<Rightarrow> string \<Rightarrow> string option \<Rightarrow> store \<Rightarrow> exn + pydict list" where
  "get_leads_by_campaign E campaign_id status s =
     parse_rows E (select_leads campaign_id status s)"

subsection \<open>record\_pipeline\_run\<close>

definition opt_str :: "string option \<Rightarrow> pyval" where
  "opt_str x = (case x of None \<Rightarrow> PNone | Some v \<Rightarrow> PStr v)"

definition opt_float :: "rat option \<Rightarrow> pyval" where
  "opt_float x = (case x of None \<Rightarrow> PNone | Some v \<Rightarrow> PFloat v)"

definition record_pipeline_run ::
  "env \<Rightarrow> string \<Rightarrow> string \<Rightarrow> string \<Rightarrow> rat option \<Rightarrow> int \<Rightarrow> int \<Rightarrow> int \<Rightarrow> string option \<Rightarrow>
   store \<Rightarrow> store" where
  "record_pipeline_run E campaign_id stage status duration processed success errors
     error_message s =
     s\<lparr>pipeline_runs := pipeline_runs s @
          [[(''id'', PInt (run_seq s + 1)),
            (''campaign_id'', PStr campaign_id),
            (''stage'', PStr stage),
            (''status'', PStr status),
            (''started_at'', PStr (current_timestamp E)),
            (''completed_at'', if status = ''completed'' then PStr (now E) else PNone),
            (''duration_seconds'', opt_float duration),
            (''processed_count'', PInt processed),
            (''success_count'', PInt success),
            (''error_count'', PInt errors),
            (''error_message'', opt_str error_message)]],
       run_seq := run_seq s + 1\<rparr>"

subsection \<open>get\_campaign\_stats\<close>

text \<open>\<^verbatim>\<open>SUM(CASE WHEN c THEN 1 ELSE 0 END)\<close>: NULL over no rows.\<close>

definition sum_case :: "(pydict \<Rightarrow> bool) \<Rightarrow> pydict list \<Rightarrow> pyval" where
  "sum_case c rows = (if rows = [] then PNone else PInt (int (length (filter c rows))))"

text \<open>
  The rows of \<^verbatim>\<open>GROUP BY stage, status\<close> with \<^verbatim>\<open>COUNT(*)\<close> and \<^verbatim>\<open>AVG(duration_seconds)\<close>
  (NULL durations do not count). SQL leaves the order of the groups open; here it is
  the order of first appearance.
\<close>

definition duration_of :: "pydict \<Rightarrow> rat option" where
  "duration_of row =
     (case col row ''duration_seconds'' of
        PFloat d \<Rightarrow> Some d
      | PInt i \<Rightarrow> Some (of_int i)
      | _ \<Rightarrow> None)"

definition group_row :: "pydict list \<Rightarrow> pyval \<times> pyval \<Rightarrow> pyval" where
  "group_row rows g =
     (let members = filter (\<lambda>r. (col r ''stage'', col r ''status'') = g) rows;
          durations = List.map_filter duration_of members
      in PDict [(''stage'', fst g), (''status'', snd g),
                (''count'', PInt (int (length members))),
                (''avg_duration'',
                   if durations = [] then PNone
                   else PFloat (sum_list durations / of_nat (length durations)))])"

definition get_campaign_stats :: "string \<Rightarrow> store \<Rightarrow> pydict" where
  "get_campaign_stats campaign_id s =
     (case get_campaign campaign_id s of
        None \<Rightarrow> []
      | Some campaign \<Rightarrow>
          (let rows = filter (\<lambda>r. sql_eq (col r ''campaign_id'') (PStr campaign_id)) (leads s);
               runs = filter (\<lambda>r. sql_eq (col r ''campaign_id'') (PStr campaign_id))
                        (pipeline_runs s)
           in [(''campaign'', PDict campaign),
               (''leads'', PDict
                  [(''total_leads'', PInt (int (length rows))),
                   (''valid_emails'', sum_case (\<lambda>r. col r ''email_valid'' = PInt 1) rows),
                   (''valid_phones'', sum_case (\<lambda>r. col r ''phone_valid'' = PInt 1) rows),
                   (''enriched_leads'', sum_case (\<lambda>r. col r ''linkedin_profile'' \<noteq> PNone) rows),
                   (''researched_leads'', sum_case (\<lambda>r. col r ''research_data'' \<noteq> PNone) rows),
                   (''personalized_leads'',
                      sum_case (\<lambda>r. col r ''personalized_message'' \<noteq> PNone) rows)]),
               (''pipeline_runs'', PList
                  (map (group_row runs)
                     (remdups (map (\<lambda>r. (col r ''stage'', col r ''status'')) runs))))]))"

section \<open>The Batch Validator (lead\_validator.py)\<close>

subsection \<open>Strings\<close>

text \<open>
  A \<open>char\<close> stands for one code point below 256. \<open>strip\<close> and \<open>lower\<close> are
  \<^verbatim>\<open>str.strip()\<close> and \<^verbatim>\<open>str.lower()\<close> on such strings.
\<close>

definition is_space :: "char \<Rightarrow> bool" where
  "is_space c = ((of_char c :: nat) \<in> {9, 10, 11, 12, 13, 28, 29, 30, 31, 32, 133, 160})"

definition strip :: "string \<Rightarrow> string" where
  "strip s = rev (dropWhile is_space (rev (dropWhile is_space s)))"

definition lower_char :: "char \<Rightarrow> char" where
  "lower_char c =
     (let n = (of_char c :: nat)
      in if (65 \<le> n \<and> n \<le> 90) \<or> (192 \<le> n \<and> n \<le> 222 \<and> n \<noteq> 215)
         then char_of (n + 32) else c)"

definition lower :: "string \<Rightarrow> string" where
  "lower s = map lower_char s"

definition startswith :: "string \<Rightarrow> string \<Rightarrow> bool" where
  "startswith s p = (take (length p) s = p)"

text \<open>The index of the first occurrence of \<open>p\<close> in \<open>s\<close>, as \<^verbatim>\<open>str.find\<close>.\<close>

fun find_from :: "nat \<Rightarrow> string \<Rightarrow> string \<Rightarrow> nat option" where
  "find_from i p [] = (if p = [] then Some i else None)"
| "find_from i p (c # cs) =
     (if startswith (c # cs) p then Some i else find_from (Suc i) p cs)"

definition contains :: "string \<Rightarrow> string \<Rightarrow> bool" where
  "contains s p = (find_from 0 p s \<noteq> None)"

subsection \<open>The e-mail format check\<close>

text \<open>
  The character classes of
  \<^verbatim>\<open>^[a-zA-Z0-9._%+-]+@[a-zA-Z0-9.-]+\.[a-zA-Z]{2,}$\<close>.
\<close>

definition is_alpha :: "char \<Rightarrow> bool" where
  "is_alpha c =
     (let n = (of_char c :: nat) in (65 \<le> n \<and> n \<le> 90) \<or> (97 \<le> n \<and> n \<le> 122))"

definition is_digit :: "char \<Rightarrow> bool" where
  "is_digit c = (let n = (of_char c :: nat) in 48 \<le> n \<and> n \<le> 57)"

definition local_char :: "char \<Rightarrow> bool" where
  "local_char c = (is_alpha c \<or> is_digit c \<or> c \<in> set ''._%+-'')"

definition domain_char :: "char \<Rightarrow> bool" where
  "domain_char c = (is_alpha c \<or> is_digit c \<or> c \<in> set ''.-'')"

text \<open>
  \<^verbatim>\<open>[a-zA-Z0-9.-]+\.[a-zA-Z]{2,}\<close> up to the end of the string: every character is in
  the domain class, the letters after the last dot are at least two, and something
  stands before that dot. (The top-level part has no dot, so the \<^verbatim>\<open>\.\<close> of the pattern
  can only be the last one.)
\<close>

definition domain_match :: "string \<Rightarrow> bool" where
  "domain_match d =
     (let tld = rev (takeWhile (\<lambda>c. c \<noteq> CHR ''.'') (rev d))
      in list_all domain_char d \<and> CHR ''.'' \<in> set d \<and>
         2 \<le> length tld \<and> list_all is_alpha tld \<and>
         length tld + 1 < length d)"

text \<open>
  The whole pattern, anchored at both ends: the local part is the longest prefix in
  its class (the class excludes \<^verbatim>\<open>@\<close>, which must follow it).
\<close>

definition pattern_match_to_end :: "string \<Rightarrow> bool" where
  "pattern_match_to_end s =
     (takeWhile local_char s \<noteq> [] \<and>
      (case dropWhile local_char s of
         [] \<Rightarrow> False
       | c # d \<Rightarrow> c = CHR ''@'' \<and> domain_match d))"

text \<open>\<^verbatim>\<open>$\<close> also matches just before a newline that ends the string.\<close>

definition email_pattern_match :: "string \<Rightarrow> bool" where
  "email_pattern_match s =
     (pattern_match_to_end s \<or>
      (s \<noteq> [] \<and> last s = CHR 0x0A \<and> pattern_match_to_end (butlast s)))"

subsection \<open>\_validate\_email and \_check\_domain\_exists\<close>

text \<open>
  Every validation function returns its result together with the calls it made to
  external libraries and services, in order.
\<close>

definition check_domain_exists :: "env \<Rightarrow> pyval \<Rightarrow> bool \<times> event list" where
  "check_domain_exists E domain =
     ((case gethostbyname E domain of Inr addr \<Rightarrow> True | Inl e \<Rightarrow> False), [DnsLookup domain])"

fun validate_email :: "env \<Rightarrow> pyval \<Rightarrow> (bool \<times> pydict option) \<times> event list" where
  "validate_email E (PStr email0) =
     (if email0 = [] then ((False, None), [])
      else
        (let email = lower (strip email0)
         in if \<not> email_pattern_match email
            then ((False, Some [(''error'', PStr ''Invalid email format'')]), [])
            else
              (case email_validator E email of
                 EmailResult validation_result \<Rightarrow>
                   (let (domain_valid, ev) = check_domain_exists E (ei_domain validation_result)
                    in ((True,
                         Some [(''normalized_email'', ei_email validation_result),
                               (''local_part'', ei_local validation_result),
                               (''domain'', ei_domain validation_result),
                               (''ascii_email'', ei_ascii_email validation_result),
                               (''ascii_local'', ei_ascii_local validation_result),
                               (''ascii_domain'', ei_ascii_domain validation_result),
                               (''domain_exists'', PBool domain_valid)]),
                        EmailLibCall email # ev))
               | EmailNotValidError msg \<Rightarrow>
                   ((False, Some [(''error'', PStr msg)]), [EmailLibCall email])
               | EmailOtherError msg \<Rightarrow>
                   ((False, Some [(''error'', PStr ''Validation service error'')]),
                    [EmailLibCall email]))))"
| "validate_email E email = ((False, None), [])"

subsection \<open>\_validate\_phone and \_get\_phone\_type\<close>

fun get_phone_type :: "phone_number_type \<Rightarrow> string" where
  "get_phone_type FIXED_LINE = ''Fixed Line''"
| "get_phone_type MOBILE = ''Mobile''"
| "get_phone_type FIXED_LINE_OR_MOBILE = ''Fixed Line or Mobile''"
| "get_phone_type TOLL_FREE = ''Toll Free''"
| "get_phone_type PREMIUM_RATE = ''Premium Rate''"
| "get_phone_type SHARED_COST = ''Shared Cost''"
| "get_phone_type VOIP = ''VoIP''"
| "get_phone_type PERSONAL_NUMBER = ''Personal Number''"
| "get_phone_type PAGER = ''Pager''"
| "get_phone_type UAN = ''UAN''"
| "get_phone_type VOICEMAIL = ''Voicemail''"
| "get_phone_type UNKNOWN = ''Unknown''"

fun validate_phone :: "env \<Rightarrow> pyval \<Rightarrow> pyval \<Rightarrow> (bool \<times> pydict option) \<times> event list" where
  "validate_phone E (PStr phone0) country =
     (if phone0 = [] then ((False, None), [])
      else
        (let phone = strip phone0
         in (case phonenumbers E phone country of
               PhoneParsed parsed_number \<Rightarrow>
                 (if pn_is_valid parsed_number then
                    (True,
                     Some [(''international_format'', PStr (pn_international parsed_number)),
                           (''national_format'', PStr (pn_national parsed_number)),
                           (''e164_format'', PStr (pn_e164 parsed_number)),
                           (''country_code'', PInt (pn_country_code parsed_number)),
                           (''national_number'', PInt (pn_national_number parsed_number)),
                           (''number_type'',
                              PStr (get_phone_type (pn_number_type parsed_number))),
                           (''is_possible'', PBool (pn_is_possible parsed_number))])
                  else
                    (False,
                     Some [(''error'', PStr ''Invalid phone number''),
                           (''is_possible'', PBool (pn_is_possible parsed_number))]))
             | NumberParseException msg \<Rightarrow>
                 (False, Some [(''error'', PStr (''Parse error: '' @ msg))])
             | PhoneOtherError msg \<Rightarrow>
                 (False, Some [(''error'', PStr ''Validation service error'')]),
             [PhoneLibCall phone country])))"
| "validate_phone E phone country = ((False, None), [])"

subsection \<open>\_check\_website\_async and \_validate\_company\_async\<close>

text \<open>
  \<^verbatim>\<open>re.search(r'<title[^>]*>(.*?)</title>', content, re.IGNORECASE | re.DOTALL)\<close>,
  group 1 of the leftmost match: after \<^verbatim>\<open><title\<close> the tag runs to the first \<^verbatim>\<open>>\<close>, and
  the group to the first closing tag after it.
\<close>

fun search_title :: "string \<Rightarrow> string option" where
  "search_title [] = None"
| "search_title (c # cs) =
     (if startswith (lower (c # cs)) ''<title'' then
        (case dropWhile (\<lambda>x. x \<noteq> CHR ''>'') (drop 6 (c # cs)) of
           [] \<Rightarrow> search_title cs
         | gt # body \<Rightarrow>
             (case find_from 0 ''</title>'' (lower body) of
                None \<Rightarrow> search_title cs
              | Some j \<Rightarrow> Some (take j body)))
      else search_title cs)"

definition response_details :: "response \<Rightarrow> pydict" where
  "response_details r =
     (let details =
            [(''status_code'', PInt (r_status_code r)),
             (''final_url'', PStr (r_url r)),
             (''content_type'', PStr (r_content_type r)),
             (''server'', PStr (r_server r)),
             (''response_time'', PFloat (r_elapsed r))];
          is_valid = (200 \<le> r_status_code r \<and> r_status_code r < 400);
          content = take 1000 (r_text r)
      in if is_valid \<and> contains (lower content) ''<title>'' then
           (case search_title content of
              Some title \<Rightarrow> AList.update ''page_title'' (PStr (take 100 (strip title))) details
            | None \<Rightarrow> details)
         else details)"

text \<open>
  \<^verbatim>\<open>website.startswith\<close> is called outside the \<^verbatim>\<open>try\<close>: a truthy value that is not a
  string raises an AttributeError which leaves the function.
\<close>

fun check_website_async ::
  "env \<Rightarrow> pyval \<Rightarrow> (exn + bool \<times> pydict option) \<times> event list" where
  "check_website_async E (PStr website0) =
     (if website0 = [] then (Inr (False, None), [])
      else
        (let website =
               (if startswith website0 ''http://'' \<or> startswith website0 ''https://''
                then website0 else ''https://'' @ website0)
         in (Inr (case session_get E website of
                    Response r \<Rightarrow>
                      (200 \<le> r_status_code r \<and> r_status_code r < 400,
                       Some (response_details r))
                  | Timeout \<Rightarrow> (False, Some [(''error'', PStr ''Website timeout'')])
                  | ConnectionError \<Rightarrow> (False, Some [(''error'', PStr ''Connection failed'')])
                  | RequestException msg \<Rightarrow>
                      (False, Some [(''error'', PStr (''Request error: '' @ take 100 msg))])
                  | HttpOtherError msg \<Rightarrow>
                      (False, Some [(''error'', PStr ''Validation service error'')])),
             [HttpGet website])))"
| "check_website_async E website =
     (if \<not> truthy website then (Inr (False, None), [])
      else (Inl (attribute_error website ''startswith''), []))"

text \<open>
  The name check \<^verbatim>\<open>company_name and len(company_name.strip()) > 2\<close>; a truthy name that
  is not a string raises an AttributeError.
\<close>

fun company_name_check :: "pyval \<Rightarrow> pydict \<Rightarrow> exn + bool \<times> pydict option" where
  "company_name_check (PStr company_name) details =
     (if company_name \<noteq> [] \<and> 2 < length (strip company_name) then
        Inr (True,
             Some (AList.update ''company_name_length''
                     (PInt (int (length (strip company_name))))
                     (AList.update ''has_company_name'' (PBool True) details)))
      else Inr (False, Some details))"
| "company_name_check company_name details =
     (if truthy company_name then Inl (attribute_error company_name ''strip'')
      else Inr (False, Some details))"

definition validate_company_async ::
  "env \<Rightarrow> pyval \<Rightarrow> pyval \<Rightarrow> (exn + bool \<times> pydict option) \<times> event list" where
  "validate_company_async E website company_name =
     (if \<not> truthy website \<and> \<not> truthy company_name then (Inr (False, None), [])
      else if truthy website then
        (case check_website_async E website of
           (Inl e, ev) \<Rightarrow> (Inl e, ev)
         | (Inr (website_valid, website_details), ev) \<Rightarrow>
             (let details =
                    dict_update [] (case website_details of None \<Rightarrow> [] | Some d \<Rightarrow> d)
              in if website_valid then (Inr (True, Some details), ev)
                 else (company_name_check company_name details, ev)))
      else (company_name_check company_name [], []))"

subsection \<open>\_validate\_single\_lead\_async\<close>

text \<open>\<^verbatim>\<open>if details: lead[key] = details\<close>.\<close>

definition attach_details :: "string \<Rightarrow> pydict option \<Rightarrow> pydict \<Rightarrow> pydict" where
  "attach_details k details lead =
     (case details of
        None \<Rightarrow> lead
      | Some d \<Rightarrow> if d = [] then lead else AList.update k (PDict d) lead)"

text \<open>
  The semaphore and the pacing delay order the tasks in time and do not enter the
  result. \<^verbatim>\<open>sum([email_valid, phone_valid, company_valid])\<close> counts the true flags.
\<close>

definition validation_score :: "bool \<Rightarrow> bool \<Rightarrow> bool \<Rightarrow> int" where
  "validation_score email_valid phone_valid company_valid =
     (if email_valid then 1 else 0) + (if phone_valid then 1 else 0) +
     (if company_valid then 1 else 0)"

definition validate_single_lead_async :: "env \<Rightarrow> pydict \<Rightarrow> (exn + pydict) \<times> event list" where
  "validate_single_lead_async E lead =
     (let ((email_valid, email_details), ev1) =
            validate_email E (dict_get lead ''email'' (PStr []));
          validated_lead1 =
            attach_details ''email_validation_details'' email_details
              (AList.update ''email_valid'' (PBool email_valid) lead);
          ((phone_valid, phone_details), ev2) =
            validate_phone E (dict_get lead ''phone'' (PStr []))
              (dict_get lead ''country'' (PStr ''US''));
          validated_lead2 =
            attach_details ''phone_validation_details'' phone_details
              (AList.update ''phone_valid'' (PBool phone_valid) validated_lead1)
      in case validate_company_async E (dict_get lead ''website'' (PStr []))
                (dict_get lead ''name'' (PStr [])) of
           (Inl e, ev3) \<Rightarrow> (Inl e, ev1 @ ev2 @ ev3)
         | (Inr (company_valid, company_details), ev3) \<Rightarrow>
             (Inr (AList.update ''validation_score''
                     (PInt (validation_score email_valid phone_valid company_valid))
                     (AList.update ''is_validated'' (PBool True)
                        (attach_details ''company_validation_details'' company_details
                           (AList.update ''company_valid'' (PBool company_valid)
                              validated_lead2)))),
              ev1 @ ev2 @ ev3))"

subsection \<open>validate\_leads\_batch\<close>

text \<open>The record built for a lead whose validation raised.\<close>

definition failed_lead :: "pydict \<Rightarrow> exn \<Rightarrow> pydict" where
  "failed_lead lead msg =
     dict_update lead
       [(''email_valid'', PBool False), (''phone_valid'', PBool False),
        (''company_valid'', PBool False), (''validation_error'', PStr msg)]"

text \<open>
  \<^verbatim>\<open>asyncio.gather(*tasks, return_exceptions=True)\<close> yields the outcome of every task in
  the order of the tasks; the loop over \<^verbatim>\<open>enumerate(validated_leads)\<close> then replaces an
  exception at index \<open>i\<close> by the record built from \<^verbatim>\<open>leads[i]\<close>. The calls to external
  services are listed task by task; their interleaving in time is not modelled.
\<close>

definition validate_leads_batch :: "env \<Rightarrow> pydict list \<Rightarrow> pydict list \<times> event list" where
  "validate_leads_batch E lead_list =
     (if lead_list = [] then ([], [])
      else
        (let validated_leads = map (validate_single_lead_async E) lead_list
         in (map (\<lambda>(i, result).
                    case fst result of
                      Inl msg \<Rightarrow> failed_lead (lead_list ! i) msg
                    | Inr validated \<Rightarrow> validated)
                 (enumerate 0 validated_leads),
             concat (map snd validated_leads))))"

subsection \<open>get\_validation\_summary\<close>







section \<open>The Pipeline Orchestrator (pipeline\_orchestrator.py)\<close>

text \<open>The stage gates of \<^verbatim>\<open>LeadPipelineConfig\<close> that \<^verbatim>\<open>run_complete_pipeline\<close> reads.\<close>

record config =
  enable_validation :: bool
  enable_linkedin_enrichment :: bool
  enable_research :: bool
  enable_personalization :: bool

datatype stage = Scraping | Validation | LinkedinEnrichment | Research | Personalization | Export

text \<open>
  How a call of a stage function ends: \<open>Skipped\<close> is the early \<^verbatim>\<open>return\<close> on an empty
  list of leads; \<open>Completed\<close> the normal end of the \<^verbatim>\<open>try\<close> block; \<open>Failed\<close> an exception
  raised inside the \<^verbatim>\<open>try\<close> block, caught by the stage's handler and raised again;
  \<open>Aborted\<close> an exception raised outside any \<^verbatim>\<open>try\<close> block of the stage. The
  orchestrator sees the last two as the same exception.
\<close>

datatype stage_result = Skipped | Completed | Failed exn | Aborted exn

fun raised :: "stage_result \<Rightarrow> exn option" where
  "raised Skipped = None"
| "raised Completed = None"
| "raised (Failed e) = Some e"
| "raised (Aborted e) = Some e"

text \<open>\<^verbatim>\<open>str(x)\<close> inside an f-string; the text of a value that is not a string is left
  to the environment.\<close>

fun py_str :: "env \<Rightarrow> pyval \<Rightarrow> string" where
  "py_str E (PStr s) = s"
| "py_str E v = str_of E v"

text \<open>
  The loop that builds one update object per lead: \<^verbatim>\<open>{'id': lead['id'], ...}\<close>.
  \<^verbatim>\<open>lead['id']\<close> raises a KeyError when the key is missing.
\<close>

fun build_updates :: "(pydict \<Rightarrow> pydict) \<Rightarrow> pydict list \<Rightarrow> exn + pydict list" where
  "build_updates payload [] = Inr []"
| "build_updates payload (lead # rest) =
     (case map_of lead ''id'' of
        None \<Rightarrow> Inl ([CHR 0x27] @ ''id'' @ [CHR 0x27])
      | Some lead_id \<Rightarrow>
          (case build_updates payload rest of
             Inl e \<Rightarrow> Inl e
           | Inr updates \<Rightarrow> Inr (((''id'', lead_id) # payload lead) # updates)))"

subsection \<open>\_create\_campaign and \_scrape\_businesses\<close>

definition create_campaign_for ::
  "env \<Rightarrow> string \<Rightarrow> string \<Rightarrow> int \<Rightarrow> string option \<Rightarrow> string option \<Rightarrow> store \<Rightarrow>
   exn + (string \<times> store)" where
  "create_campaign_for E business_type location max_results campaign_name from_email s =
     create_campaign E
       [(''name'',
           PStr (case campaign_name of
                   None \<Rightarrow> business_type @ '' in '' @ location
                 | Some n \<Rightarrow> if n = [] then business_type @ '' in '' @ location else n)),
        (''business_type'', PStr business_type),
        (''location'', PStr location),
        (''max_results'', PInt max_results),
        (''from_email'', opt_str from_email)] s"

definition scrape_businesses ::
  "env \<Rightarrow> string \<Rightarrow> string \<Rightarrow> string \<Rightarrow> int \<Rightarrow> store \<Rightarrow> (exn + pydict list) \<times> store" where
  "scrape_businesses E campaign_id business_type location max_results s =
     (case search_businesses E business_type location max_results of
        Inr businesses \<Rightarrow>
          (Inr businesses,
           record_pipeline_run E campaign_id ''scraping'' ''completed'' None
             (int (length businesses)) (int (length businesses)) 0 None s)
      | Inl e \<Rightarrow>
          (Inl e,
           record_pipeline_run E campaign_id ''scraping'' ''failed'' None 0 0 0 (Some e) s))"

subsection \<open>The stage functions\<close>

text \<open>
  The shape shared by the four stage functions: read the leads, return early when there
  are none, run the \<^verbatim>\<open>try\<close> block; when the block raises, the handler records a failed
  run and raises again. The block itself ends by recording a completed run.
\<close>

definition stage_handler ::
  "env \<Rightarrow> string \<Rightarrow> string \<Rightarrow> exn option \<times> store \<Rightarrow> stage_result \<times> store" where
  "stage_handler E campaign_id stage_name block =
     (case block of
        (None, s') \<Rightarrow> (Completed, s')
      | (Some e, s') \<Rightarrow>
          (Failed e,
           record_pipeline_run E campaign_id stage_name ''failed'' (Some (elapsed E)) 0 0 0
             (Some e) s'))"

definition validation_update :: "pydict \<Rightarrow> pydict" where
  "validation_update lead =
     [(''email_valid'', dict_get lead ''email_valid'' (PBool False)),
      (''phone_valid'', dict_get lead ''phone_valid'' (PBool False)),
      (''company_valid'', dict_get lead ''company_valid'' (PBool False)),
      (''status'', PStr ''validated'')]"

definition validate_leads_block :: "env \<Rightarrow> string \<Rightarrow> pydict list \<Rightarrow> store \<Rightarrow> exn option \<times> store" where
  "validate_leads_block E campaign_id lead_list s =
     (let validated_leads = fst (validate_leads_batch E lead_list)
      in case build_updates validation_update validated_leads of
           Inl e \<Rightarrow> (Some e, s)
         | Inr updates \<Rightarrow>
             (case update_leads_batch E campaign_id updates s of
                Inl e \<Rightarrow> (Some e, s)
              | Inr s1 \<Rightarrow>
                  (let valid_leads =
                         int (length (filter (\<lambda>lead. truthy (dict_get lead ''email_valid''
                                                   (PBool False))) validated_leads))
                   in case update_campaign E campaign_id
                             [(''validated_leads'', PInt valid_leads)] s1 of
                        Inl e \<Rightarrow> (Some e, s1)
                      | Inr s2 \<Rightarrow>
                          (None,
                           record_pipeline_run E campaign_id ''validation'' ''completed''
                             (Some (elapsed E)) (int (length lead_list))
                             (int (length validated_leads)) 0 None s2))))"

text \<open>\<^verbatim>\<open>_validate_leads\<close> reads the leads of the campaign without a status argument.\<close>

definition validate_leads :: "env \<Rightarrow> string \<Rightarrow> store \<Rightarrow> stage_result \<times> store" where
  "validate_leads E campaign_id s =
     (case get_leads_by_campaign E campaign_id None s of
        Inl e \<Rightarrow> (Aborted e, s)
      | Inr lead_list \<Rightarrow>
          if lead_list = [] then (Skipped, s)
          else stage_handler E campaign_id ''validation''
                 (validate_leads_block E campaign_id lead_list s))"

definition linkedin_update :: "pydict \<Rightarrow> pydict" where
  "linkedin_update lead =
     [(''linkedin_profile'',
         PDict [(''inferred'', PBool True),
                (''company_name'', dict_get lead ''name'' (PStr [])),
                (''industry'', dict_get lead ''category'' (PStr [])),
                (''location'', dict_get lead ''city'' (PStr [])),
                (''confidence_score'', PFloat (7 / 10)),
                (''profile_url'', PNone)]),
      (''status'', PStr ''enriched'')]"

definition enrich_block :: "env \<Rightarrow> string \<Rightarrow> pydict list \<Rightarrow> store \<Rightarrow> exn option \<times> store" where
  "enrich_block E campaign_id lead_list s =
     (case build_updates linkedin_update lead_list of
        Inl e \<Rightarrow> (Some e, s)
      | Inr updates \<Rightarrow>
          (case update_leads_batch E campaign_id updates s of
             Inl e \<Rightarrow> (Some e, s)
           | Inr s1 \<Rightarrow>
               (case update_campaign E campaign_id
                       [(''enriched_leads'', PInt (int (length updates)))] s1 of
                  Inl e \<Rightarrow> (Some e, s1)
                | Inr s2 \<Rightarrow>
                    (None,
                     record_pipeline_run E campaign_id ''linkedin_enrichment'' ''completed''
                       (Some (elapsed E)) (int (length lead_list)) (int (length updates)) 0
                       None s2))))"

definition enrich_linkedin_profiles :: "env \<Rightarrow> string \<Rightarrow> store \<Rightarrow> stage_result \<times> store" where
  "enrich_linkedin_profiles E campaign_id s =
     (case get_leads_by_campaign E campaign_id (Some ''validated'') s of
        Inl e \<Rightarrow> (Aborted e, s)
      | Inr lead_list \<Rightarrow>
          if lead_list = [] then (Skipped, s)
          else stage_handler E campaign_id ''linkedin_enrichment''
                 (enrich_block E campaign_id lead_list s))"

definition research_update :: "env \<Rightarrow> pydict \<Rightarrow> pydict" where
  "research_update E lead =
     [(''research_data'',
         PDict [(''company_overview'',
                   PStr (''Research overview for '' @
                         py_str E (dict_get lead ''name'' (PStr ''Unknown Company'')))),
                (''industry_insights'',
                   PStr (''Industry insights for '' @
                         py_str E (dict_get lead ''category'' (PStr ''Unknown Industry'')))),
                (''key_challenges'',
                   PList [PStr ''Market competition'', PStr ''Digital transformation'',
                          PStr ''Customer acquisition'']),
                (''recent_news'', PList [PStr ''Recent expansion'', PStr ''New product launch'']),
                (''research_timestamp'', PStr (now E)),
                (''confidence_score'', PFloat (8 / 10))]),
      (''status'', PStr ''researched'')]"

definition research_block :: "env \<Rightarrow> string \<Rightarrow> pydict list \<Rightarrow> store \<Rightarrow> exn option \<times> store" where
  "research_block E campaign_id lead_list s =
     (case build_updates (research_update E) lead_list of
        Inl e \<Rightarrow> (Some e, s)
      | Inr updates \<Rightarrow>
          (case update_leads_batch E campaign_id updates s of
             Inl e \<Rightarrow> (Some e, s)
           | Inr s1 \<Rightarrow>
               (None,
                record_pipeline_run E campaign_id ''research'' ''completed''
                  (Some (elapsed E)) (int (length lead_list)) (int (length updates)) 0
                  None s1)))"

definition research_companies :: "env \<Rightarrow> string \<Rightarrow> store \<Rightarrow> stage_result \<times> store" where
  "research_companies E campaign_id s =
     (case get_leads_by_campaign E campaign_id (Some ''enriched'') s of
        Inl e \<Rightarrow> (Aborted e, s)
      | Inr lead_list \<Rightarrow>
          if lead_list = [] then (Skipped, s)
          else stage_handler E campaign_id ''research''
                 (research_block E campaign_id lead_list s))"

definition message_text :: "env \<Rightarrow> pydict \<Rightarrow> string" where
  "message_text E lead =
     ''Hello,'' @ [CHR 0x0A] @ replicate 20 CHR '' '' @ [CHR 0x0A] @
     ''I noticed '' @ py_str E (dict_get lead ''name'' (PStr ''your company'')) @
     '' in '' @ py_str E (dict_get lead ''city'' (PStr ''your area'')) @
     '' and was impressed by your work in '' @
     py_str E (dict_get lead ''category'' (PStr ''your industry'')) @ ''.'' @
     [CHR 0x0A, CHR 0x0A] @
     ''Based on our research, I believe there could be a valuable partnership '' @
     ''opportunity that could help address some of the common challenges in your '' @
     ''industry.'' @ [CHR 0x0A, CHR 0x0A] @
     ''Would you be open to a brief conversation to explore this further?'' @
     [CHR 0x0A, CHR 0x0A] @ ''Best regards,'' @ [CHR 0x0A] @ ''[Your Name]''"

definition personalization_update :: "env \<Rightarrow> pydict \<Rightarrow> pydict" where
  "personalization_update E lead =
     [(''personalized_message'',
         PDict [(''subject'',
                   PStr (''Partnership opportunity for '' @
                         py_str E (dict_get lead ''name'' (PStr ''your company'')))),
                (''message'', PStr (message_text E lead)),
                (''template_used'', PStr ''professional''),
                (''personalization_elements'',
                   PDict [(''company_name'', dict_get lead ''name'' PNone),
                          (''location'', dict_get lead ''city'' PNone),
                          (''industry'', dict_get lead ''category'' PNone)]),
                (''created_at'', PStr (now E))]),
      (''status'', PStr ''personalized'')]"

definition personalize_block :: "env \<Rightarrow> string \<Rightarrow> pydict list \<Rightarrow> store \<Rightarrow> exn option \<times> store" where
  "personalize_block E campaign_id lead_list s =
     (case build_updates (personalization_update E) lead_list of
        Inl e \<Rightarrow> (Some e, s)
      | Inr updates \<Rightarrow>
          (case update_leads_batch E campaign_id updates s of
             Inl e \<Rightarrow> (Some e, s)
           | Inr s1 \<Rightarrow>
               (case update_campaign E campaign_id
                       [(''personalized_leads'', PInt (int (length updates)))] s1 of
                  Inl e \<Rightarrow> (Some e, s1)
                | Inr s2 \<Rightarrow>
                    (None,
                     record_pipeline_run E campaign_id ''personalization'' ''completed''
                       (Some (elapsed E)) (int (length lead_list)) (int (length updates)) 0
                       None s2))))"

definition personalize_messages :: "env \<Rightarrow> string \<Rightarrow> store \<Rightarrow> stage_result \<times> store" where
  "personalize_messages E campaign_id s =
     (case get_leads_by_campaign E campaign_id (Some ''researched'') s of
        Inl e \<Rightarrow> (Aborted e, s)
      | Inr lead_list \<Rightarrow>
          if lead_list = [] then (Skipped, s)
          else stage_handler E campaign_id ''personalization''
                 (personalize_block E campaign_id lead_list s))"

subsection \<open>\_export\_results\<close>

definition flatten_lead :: "pydict \<Rightarrow> pydict" where
  "flatten_lead lead =
     [(''campaign_id'', dict_get lead ''campaign_id'' PNone),
      (''name'', dict_get lead ''name'' PNone),
      (''address'', dict_get lead ''address'' PNone),
      (''city'', dict_get lead ''city'' PNone),
      (''state'', dict_get lead ''state'' PNone),
      (''phone'', dict_get lead ''phone'' PNone),
      (''email'', dict_get lead ''email'' PNone),
      (''website'', dict_get lead ''website'' PNone),
      (''category'', dict_get lead ''category'' PNone),
      (''rating'', dict_get lead ''rating'' PNone),
      (''reviews_count'', dict_get lead ''reviews_count'' PNone),
      (''status'', dict_get lead ''status'' PNone),
      (''email_valid'', dict_get lead ''email_valid'' PNone),
      (''phone_valid'', dict_get lead ''phone_valid'' PNone),
      (''company_valid'', dict_get lead ''company_valid'' PNone),
      (''linkedin_enriched'', PBool (truthy (dict_get lead ''linkedin_profile'' PNone))),
      (''research_completed'', PBool (truthy (dict_get lead ''research_data'' PNone))),
      (''message_personalized'',
         PBool (truthy (dict_get lead ''personalized_message'' PNone)))]"

text \<open>
  The export stage reads all leads of the campaign and hands them to the exporter. It
  has no \<^verbatim>\<open>try\<close> block and calls no method that writes to the Store.
\<close>

definition export_results :: "env \<Rightarrow> string \<Rightarrow> store \<Rightarrow> exn + string" where
  "export_results E campaign_id s =
     (case get_leads_by_campaign E campaign_id None s of
        Inl e \<Rightarrow> Inl e
      | Inr lead_list \<Rightarrow>
          export_leads E (map flatten_lead lead_list)
            (''leads_'' @ campaign_id @ ''_'' @ stamp E))"

subsection \<open>run\_complete\_pipeline\<close>

text \<open>
  The four gated stages, in order: each runs when its flag is set, and the first
  exception ends the sequence. The trace lists the stage functions that were called,
  each with the way its call ended.
\<close>

type_synonym trace = "(stage \<times> stage_result) list"

fun run_gated_stages ::
  "(bool \<times> stage \<times> (store \<Rightarrow> stage_result \<times> store)) list \<Rightarrow> store \<Rightarrow> trace \<Rightarrow>
   exn option \<times> store \<times> trace" where
  "run_gated_stages [] s tr = (None, s, tr)"
| "run_gated_stages ((enabled, st, f) # rest) s tr =
     (if enabled then
        (case f s of
           (r, s') \<Rightarrow>
             (case raised r of
                Some e \<Rightarrow> (Some e, s', tr @ [(st, r)])
              | None \<Rightarrow> run_gated_stages rest s' (tr @ [(st, r)])))
      else run_gated_stages rest s tr)"

definition gated_stages ::
  "env \<Rightarrow> config \<Rightarrow> string \<Rightarrow> (bool \<times> stage \<times> (store \<Rightarrow> stage_result \<times> store)) list" where
  "gated_stages E cfg campaign_id =
     [(enable_validation cfg, Validation, validate_leads E campaign_id),
      (enable_linkedin_enrichment cfg, LinkedinEnrichment,
         enrich_linkedin_profiles E campaign_id),
      (enable_research cfg, Research, research_companies E campaign_id),
      (enable_personalization cfg, Personalization, personalize_messages E campaign_id)]"

text \<open>\<^verbatim>\<open>final_stats.get('leads', {}).get(key, 0)\<close>.\<close>

definition lead_stat :: "pydict \<Rightarrow> string \<Rightarrow> pyval" where
  "lead_stat final_stats k =
     (case dict_get final_stats ''leads'' (PDict []) of
        PDict d \<Rightarrow> dict_get d k (PInt 0)
      | _ \<Rightarrow> PInt 0)"

text \<open>Steps 7 and after: export, then the transition to \<open>completed\<close>.\<close>

definition export_and_complete ::
  "env \<Rightarrow> string \<Rightarrow> pydict list \<Rightarrow> store \<Rightarrow> trace \<Rightarrow> (exn + pydict) \<times> store \<times> trace" where
  "export_and_complete E campaign_id businesses s tr =
     (case export_results E campaign_id s of
        Inl e \<Rightarrow> (Inl e, s, tr @ [(Export, Aborted e)])
      | Inr csv_file \<Rightarrow>
          (let final_stats = get_campaign_stats campaign_id s
           in case update_campaign E campaign_id
                     [(''status'', PStr ''completed''), (''completed_at'', PStr (now E))] s of
                Inl e \<Rightarrow> (Inl e, s, tr @ [(Export, Completed)])
              | Inr s' \<Rightarrow>
                  (Inr [(''campaign_id'', PStr campaign_id),
                        (''status'', PStr ''completed''),
                        (''execution_time'', PFloat (elapsed E)),
                        (''total_leads'', PInt (int (length businesses))),
                        (''validated_leads'', lead_stat final_stats ''valid_emails''),
                        (''enriched_leads'', lead_stat final_stats ''enriched_leads''),
                        (''csv_export'', PStr csv_file),
                        (''stats'', PDict final_stats)],
                   s', tr @ [(Export, Completed)])))"

text \<open>The body of the \<^verbatim>\<open>try\<close> block of \<^verbatim>\<open>run_complete_pipeline\<close>.\<close>

definition pipeline_block ::
  "env \<Rightarrow> config \<Rightarrow> string \<Rightarrow> string \<Rightarrow> string \<Rightarrow> int \<Rightarrow> store \<Rightarrow>
   (exn + pydict) \<times> store \<times> trace" where
  "pipeline_block E cfg campaign_id business_type location max_results s =
     (case update_campaign E campaign_id [(''status'', PStr ''running'')] s of
        Inl e \<Rightarrow> (Inl e, s, [])
      | Inr s1 \<Rightarrow>
          (case scrape_businesses E campaign_id business_type location max_results s1 of
             (Inl e, s2) \<Rightarrow> (Inl e, s2, [(Scraping, Failed e)])
           | (Inr businesses, s2) \<Rightarrow>
               if businesses = [] then
                 (Inl ''No businesses found'', s2, [(Scraping, Completed)])
               else
                 (case insert_leads E campaign_id businesses s2 of
                    Inl e \<Rightarrow> (Inl e, s2, [(Scraping, Completed)])
                  | Inr s3 \<Rightarrow>
                      (case update_campaign E campaign_id
                              [(''total_leads'', PInt (int (length businesses)))] s3 of
                         Inl e \<Rightarrow> (Inl e, s3, [(Scraping, Completed)])
                       | Inr s4 \<Rightarrow>
                           (case run_gated_stages (gated_stages E cfg campaign_id) s4
                                   [(Scraping, Completed)] of
                              (Some e, s5, tr) \<Rightarrow> (Inl e, s5, tr)
                            | (None, s5, tr) \<Rightarrow>
                                export_and_complete E campaign_id businesses s5 tr)))))"

text \<open>
  \<^verbatim>\<open>run_complete_pipeline\<close>: the campaign is created before the \<^verbatim>\<open>try\<close> block; an
  exception of the block is answered by the transition to \<open>failed\<close> and raised again.
  The result is the summary or the exception, the store, and the trace of the stages.
\<close>

definition run_complete_pipeline ::
  "env \<Rightarrow> config \<Rightarrow> string \<Rightarrow> string \<Rightarrow> int \<Rightarrow> string option \<Rightarrow> string option \<Rightarrow> store \<Rightarrow>
   (exn + pydict) \<times> store \<times> trace" where
  "run_complete_pipeline E cfg business_type location max_results campaign_name from_email s =
     (case create_campaign_for E business_type location max_results campaign_name
             from_email s of
        Inl e \<Rightarrow> (Inl e, s, [])
      | Inr (campaign_id, s0) \<Rightarrow>
          (case pipeline_block E cfg campaign_id business_type location max_results s0 of
             (Inr summary, s', tr) \<Rightarrow> (Inr summary, s', tr)
           | (Inl e, s', tr) \<Rightarrow>
               (case update_campaign E campaign_id
                       [(''status'', PStr ''failed''), (''error_message'', PStr e)] s' of
                  Inl e' \<Rightarrow> (Inl e', s', tr)
                | Inr s'' \<Rightarrow> (Inl e, s'', tr))))"

subsection \<open>get\_pipeline\_status\<close>

definition get_pipeline_status :: "string \<Rightarrow> store \<Rightarrow> pydict" where
  "get_pipeline_status campaign_id s =
     (case get_campaign campaign_id s of
        None \<Rightarrow> [(''error'', PStr ''Campaign not found'')]
      | Some campaign \<Rightarrow>
          [(''campaign_id'', PStr campaign_id),
           (''status'', dict_get campaign ''status'' PNone),
           (''created_at'', dict_get campaign ''created_at'' PNone),
           (''updated_at'', dict_get campaign ''updated_at'' PNone),
           (''completed_at'', dict_get campaign ''completed_at'' PNone),
           (''total_leads'', dict_get campaign ''total_leads'' (PInt 0)),
           (''validated_leads'', dict_get campaign ''validated_leads'' (PInt 0)),
           (''enriched_leads'', dict_get campaign ''enriched_leads'' (PInt 0)),
           (''personalized_leads'', dict_get campaign ''personalized_leads'' (PInt 0)),
           (''error_message'', dict_get campaign ''error_message'' PNone),
           (''detailed_stats'', PDict (get_campaign_stats campaign_id s))])"

section \<open>Sample environments and stores\<close>

text \<open>
  An environment without network: every lookup and request fails, the places search
  finds nothing, the JSON codec and the exporter succeed.
\<close>

definition offline_env :: env where
  "offline_env =
     \<lparr>current_timestamp = ''2024-01-01 00:00:00'',
      now = ''2024-01-01T00:00:00'',
      stamp = ''20240101_000000'',
      elapsed = 0,
      json_dumps = (\<lambda>v. Inr ''{}''),
      json_loads = (\<lambda>v. Parsed (PDict [])),
      search_businesses = (\<lambda>query location max_results. Inr []),
      export_leads = (\<lambda>rows filename. Inr (''data/'' @ filename @ ''.csv'')),
      email_validator = (\<lambda>email. EmailNotValidError ''The domain name does not exist.''),
      gethostbyname = (\<lambda>domain. Inl ''Name or service not known''),
      phonenumbers = (\<lambda>phone country. NumberParseException ''The string is not a number.''),
      session_get = (\<lambda>url. ConnectionError),
      str_of = (\<lambda>v. ''None'')\<rparr>"




text \<open>Two leads for the validator: one with a malformed e-mail address, and one whose
  website is not a string, which makes its validation raise.\<close>

definition acme_lead :: pydict where
  "acme_lead =
     [(''id'', PInt 1), (''name'', PStr ''Acme Coffee''), (''email'', PStr ''not-an-email'')]"

definition broken_lead :: pydict where
  "broken_lead = [(''id'', PInt 2), (''name'', PStr ''Broken Beans''), (''website'', PInt 5)]"

section \<open>Auxiliary definitions\<close>

text \<open>The keys that the validator writes into a lead.\<close>

definition validation_keys :: "string list" where
  "validation_keys =
     [''email_valid'', ''email_validation_details'', ''phone_valid'',
      ''phone_validation_details'', ''company_valid'', ''company_validation_details'',
      ''is_validated'', ''validation_score'', ''validation_error'']"

text \<open>The record that the batch returns for one lead.\<close>

definition result_of :: "env \<Rightarrow> pydict \<Rightarrow> pydict" where
  "result_of E lead =
     (case fst (validate_single_lead_async E lead) of
        Inl msg \<Rightarrow> failed_lead lead msg
      | Inr validated \<Rightarrow> validated)"

text \<open>
  An environment in which every check succeeds: the e-mail library accepts, the domain
  resolves, the phone number is valid, the website answers 200.
\<close>

definition online_env :: env where
  "online_env =
     offline_env
       \<lparr>email_validator :=
          (\<lambda>email. EmailResult
             \<lparr>ei_email = PStr email, ei_local = PStr ''info'', ei_domain = PStr ''acme.example'',
              ei_ascii_email = PStr email, ei_ascii_local = PStr ''info'',
              ei_ascii_domain = PStr ''acme.example''\<rparr>),
        gethostbyname := (\<lambda>domain. Inr ''192.0.2.1''),
        phonenumbers :=
          (\<lambda>phone country. PhoneParsed
             \<lparr>pn_is_valid = True, pn_is_possible = True,
              pn_international = ''+1 206-555-0100'', pn_national = ''(206) 555-0100'',
              pn_e164 = ''+12065550100'', pn_country_code = 1,
              pn_national_number = 2065550100, pn_number_type = FIXED_LINE_OR_MOBILE\<rparr>),
        session_get :=
          (\<lambda>url. Response
             \<lparr>r_status_code = 200, r_url = url, r_content_type = ''text/html'',
              r_server = ''nginx'', r_elapsed = 1 / 10,
              r_text = ''<html><title>Acme</title></html>''\<rparr>)\<rparr>"

definition good_lead :: pydict where
  "good_lead =
     [(''id'', PInt 1), (''name'', PStr ''Acme Coffee''), (''email'', PStr ''info@acme.example''),
      (''phone'', PStr ''+1 206 555 0100''), (''website'', PStr ''https://acme.example'')]"





text \<open>The stage gates as \<^verbatim>\<open>LeadPipelineConfig\<close> sets them by default.\<close>

definition default_config :: config where
  "default_config =
     \<lparr>enable_validation = True, enable_linkedin_enrichment = True,
      enable_research = True, enable_personalization = True\<rparr>"

text \<open>A places search that finds one business.\<close>

definition one_business_env :: env where
  "one_business_env =
     online_env\<lparr>search_businesses := (\<lambda>query location max_results. Inr [good_lead])\<rparr>"

text \<open>The id that \<open>create_campaign\<close> generates.\<close>

definition generated_id :: "env \<Rightarrow> string" where
  "generated_id E = ''campaign_'' @ stamp E"

text \<open>
  \<open>can_create E max_results s\<close>: the generated id is not yet the id of a campaign, and
  \<open>max_results\<close> fits an SQLite integer, so that the INSERT of \<open>create_campaign\<close> succeeds.
\<close>

definition can_create :: "env \<Rightarrow> int \<Rightarrow> store \<Rightarrow> bool" where
  "can_create E max_results s =
     (list_all (\<lambda>row. \<not> sql_eq (col row ''id'') (PStr (generated_id E))) (campaigns s) \<and>
      - (2 ^ 63) \<le> max_results \<and> max_results < 2 ^ 63)"

text \<open>The columns of a campaign that only \<open>run_complete_pipeline\<close> itself writes.\<close>

definition core :: "string \<Rightarrow> store \<Rightarrow> (pyval \<times> pyval \<times> pyval \<times> pyval \<times> pyval) option" where
  "core cid s =
     map_option
       (\<lambda>row. (col row ''status'', col row ''completed_at'', col row ''error_message'',
               col row ''business_type'', col row ''location''))
       (get_campaign cid s)"

definition core_columns :: "string list" where
  "core_columns =
     [''id'', ''status'', ''completed_at'', ''error_message'', ''business_type'', ''location'']"

text \<open>The name under which a stage records its runs; the export stage records none.\<close>

fun audit_name :: "stage \<Rightarrow> string option" where
  "audit_name Scraping = Some ''scraping''"
| "audit_name Validation = Some ''validation''"
| "audit_name LinkedinEnrichment = Some ''linkedin_enrichment''"
| "audit_name Research = Some ''research''"
| "audit_name Personalization = Some ''personalization''"
| "audit_name Export = None"

text \<open>
  The stage and status of the PipelineRun rows that one entry of the trace accounts
  for: one row for a call of a recording stage that ended as \<open>Completed\<close> or \<open>Failed\<close>,
  none otherwise.
\<close>

fun audited :: "stage \<times> stage_result \<Rightarrow> (pyval \<times> pyval) list" where
  "audited (st, Completed) =
     (case audit_name st of None \<Rightarrow> [] | Some n \<Rightarrow> [(PStr n, PStr ''completed'')])"
| "audited (st, Failed e) =
     (case audit_name st of None \<Rightarrow> [] | Some n \<Rightarrow> [(PStr n, PStr ''failed'')])"
| "audited (st, Skipped) = []"
| "audited (st, Aborted e) = []"

definition stage_status :: "pydict \<Rightarrow> pyval \<times> pyval" where
  "stage_status row = (col row ''stage'', col row ''status'')"

text \<open>
  \<open>stage_ok cid st f\<close>: a call of the stage function \<open>f\<close> leaves the core columns of
  campaign \<open>cid\<close> as they are and appends to pipeline\_runs the rows that \<open>audited\<close> tells.
\<close>

definition stage_ok :: "string \<Rightarrow> stage \<Rightarrow> (store \<Rightarrow> stage_result \<times> store) \<Rightarrow> bool" where
  "stage_ok cid st f =
     (\<forall>s r s'. f s = (r, s') \<longrightarrow>
        core cid s' = core cid s \<and>
        (\<exists>rows. pipeline_runs s' = pipeline_runs s @ rows \<and>
                map stage_status rows = audited (st, r)))"

text \<open>
  \<open>block_ok cid name b\<close>: the \<^verbatim>\<open>try\<close> block \<open>b\<close> of a stage leaves the core columns of
  campaign \<open>cid\<close> as they are, and records one completed run under \<open>name\<close> when it ends
  normally and none when it raises.
\<close>

definition block_ok :: "string \<Rightarrow> string \<Rightarrow> (store \<Rightarrow> exn option \<times> store) \<Rightarrow> bool" where
  "block_ok cid name b =
     (\<forall>s eo s'. b s = (eo, s') \<longrightarrow>
        core cid s' = core cid s \<and>
        (case eo of
           None \<Rightarrow> \<exists>row. pipeline_runs s' = pipeline_runs s @ [row] \<and>
                     stage_status row = (PStr name, PStr ''completed'')
         | Some e \<Rightarrow> pipeline_runs s' = pipeline_runs s))"

text \<open>
  The common tail of the four \<^verbatim>\<open>try\<close> blocks: write the updates back, set the
  campaign's counters (none for the research stage), record the completed run.
\<close>

definition write_back ::
  "env \<Rightarrow> string \<Rightarrow> string \<Rightarrow> pydict \<Rightarrow> int \<Rightarrow> int \<Rightarrow> pydict list \<Rightarrow> store \<Rightarrow>
   exn option \<times> store" where
  "write_back E cid name counters processed success updates s =
     (case update_leads_batch E cid updates s of
        Inl e \<Rightarrow> (Some e, s)
      | Inr s1 \<Rightarrow>
          (case update_campaign E cid counters s1 of
             Inl e \<Rightarrow> (Some e, s1)
           | Inr s2 \<Rightarrow>
               (None,
                record_pipeline_run E cid name ''completed'' (Some (elapsed E)) processed
                  success 0 None s2)))"

section \<open>Properties of the Store\<close>

subsection \<open>Auxiliary facts about updates\<close>


lemma adapt_all_keys: "adapt_all a = Inr b \<Longrightarrow> map fst b = map fst a"
  by (induction a arbitrary: b) (auto split: sum.splits)


lemma map_of_dict_update_other:
  "k \<notin> fst ` set other \<Longrightarrow> map_of (dict_update d other) k = map_of d k"
  unfolding dict_update_def
  by (induction other arbitrary: d) (auto simp: update_conv')

lemma col_set_columns_other:
  "k \<notin> fst ` set bound \<Longrightarrow> k \<noteq> ''updated_at'' \<Longrightarrow>
   col (set_columns bound ts row) k = col row k"
  by (simp add: col_def dict_get_def set_columns_def update_conv' map_of_dict_update_other)









subsection \<open>The frame of update\_leads\_batch\<close>



section \<open>Properties of the Batch Validator\<close>

subsection \<open>Dictionaries\<close>

lemma map_of_dict_update: "map_of (dict_update d other) = map_of d ++ map_of (rev other)"
  unfolding dict_update_def
proof (induction other arbitrary: d)
  case Nil
  then show ?case by simp
next
  case (Cons kv other)
  obtain k v where kv: "kv = (k, v)" by (cases kv)
  have "map_of (AList.update k v d) ++ map_of (rev other) =
        map_of d ++ ([k \<mapsto> v] ++ map_of (rev other))"
    by (simp add: update_conv' fun_eq_iff map_add_def split: option.splits)
  with Cons show ?case by (simp add: kv)
qed

lemma map_of_attach_details:
  "k' \<noteq> k \<Longrightarrow> map_of (attach_details k d lead) k' = map_of lead k'"
  by (simp add: attach_details_def update_conv' split: option.splits)

subsection \<open>The batch as a map over the leads\<close>

lemma validate_leads_batch_map:
  "fst (validate_leads_batch E ls) = map (result_of E) ls"
proof (cases "ls = []")
  case True
  then show ?thesis by (simp add: validate_leads_batch_def)
next
  case False
  have "map (\<lambda>(i, result). case fst result of
                      Inl msg \<Rightarrow> failed_lead (ls ! i) msg
                    | Inr validated \<Rightarrow> validated)
          (enumerate 0 (map (validate_single_lead_async E) ls)) = map (result_of E) ls"
    by (rule nth_equalityI) (simp_all add: nth_enumerate_eq result_of_def)
  with False show ?thesis
    by (simp add: validate_leads_batch_def Let_def)
qed

lemma validate_single_keeps:
  assumes "fst (validate_single_lead_async E lead) = Inr r" and "k \<notin> set validation_keys"
  shows "map_of r k = map_of lead k"
  using assms
  by (auto simp: validate_single_lead_async_def validation_keys_def Let_def update_conv'
        map_of_attach_details split: prod.splits sum.splits)

lemma failed_lead_keeps:
  "k \<notin> set validation_keys \<Longrightarrow> map_of (failed_lead lead msg) k = map_of lead k"
  by (rule trans[OF _ map_of_dict_update_other[of k _ lead]])
     (auto simp: failed_lead_def validation_keys_def)

lemma result_of_keeps:
  "k \<notin> set validation_keys \<Longrightarrow> map_of (result_of E lead) k = map_of lead k"
  by (cases "fst (validate_single_lead_async E lead)")
     (simp_all add: result_of_def failed_lead_keeps validate_single_keeps)

lemma failed_lead_flags:
  "dict_get (failed_lead lead msg) ''email_valid'' PNone = PBool False"
  "dict_get (failed_lead lead msg) ''phone_valid'' PNone = PBool False"
  "dict_get (failed_lead lead msg) ''company_valid'' PNone = PBool False"
  "dict_get (failed_lead lead msg) ''validation_error'' PNone = PStr msg"
  by (simp_all add: failed_lead_def dict_get_def map_of_dict_update map_add_def)

lemma failed_lead_copy:
  "k \<notin> {''email_valid'', ''phone_valid'', ''company_valid'', ''validation_error''} \<Longrightarrow>
   map_of (failed_lead lead msg) k = map_of lead k"
  by (simp add: failed_lead_def map_of_dict_update map_add_def)

subsection \<open>Order preservation\<close>

text \<open>
  Claim C2. For a list of N leads \<open>validate_leads_batch\<close> returns N records, and the
  record at index \<open>i\<close> is the one built from the lead at index \<open>i\<close>: the validated copy
  of that lead, or, when its validation raised, that lead with the failure annotation.
  In both cases it agrees with the lead at index \<open>i\<close> on every key that the validator
  does not write (the \<^verbatim>\<open>id\<close> among them).
\<close>

theorem validate_leads_batch_order:
  "length (fst (validate_leads_batch E ls)) = length ls \<and>
   (\<forall>i < length ls.
      fst (validate_leads_batch E ls) ! i =
        (case fst (validate_single_lead_async E (ls ! i)) of
           Inl msg \<Rightarrow> failed_lead (ls ! i) msg
         | Inr validated \<Rightarrow> validated) \<and>
      (\<forall>k. k \<notin> set validation_keys \<longrightarrow>
         map_of (fst (validate_leads_batch E ls) ! i) k = map_of (ls ! i) k))"
  by (simp add: validate_leads_batch_map result_of_keeps) (simp add: result_of_def)

theorem validate_leads_batch_order_witness:
  "0 < length [acme_lead, broken_lead] \<and>
   ''id'' \<notin> set validation_keys \<and>
   length (fst (validate_leads_batch offline_env [acme_lead, broken_lead])) =
     length [acme_lead, broken_lead] \<and>
   map_of (fst (validate_leads_batch offline_env [acme_lead, broken_lead]) ! 0) ''id'' =
     map_of ([acme_lead, broken_lead] ! 0) ''id''"
proof -
  have inside: "0 < length [acme_lead, broken_lead]"
    by simp
  have other_key: "''id'' \<notin> set validation_keys"
    by (simp add: validation_keys_def)
  from validate_leads_batch_order [of offline_env "[acme_lead, broken_lead]"]
    inside other_key
  show ?thesis
    by blast
qed

subsection \<open>Failure isolation\<close>

text \<open>
  Claim C3. When the validation of the lead at index \<open>i\<close> raises an exception with
  message \<open>msg\<close>, the batch still returns one record per lead; the record at \<open>i\<close> is the
  original lead with \<^verbatim>\<open>email_valid\<close>, \<^verbatim>\<open>phone_valid\<close> and \<^verbatim>\<open>company_valid\<close> false and
  \<^verbatim>\<open>validation_error\<close> equal to \<open>msg\<close>, every other key being as in the original; and
  the record of every other lead is what validating that lead alone yields, and stays
  the same when the failing lead is replaced by any other lead.
\<close>

theorem validate_leads_batch_isolation:
  assumes "i < length ls" and "fst (validate_single_lead_async E (ls ! i)) = Inl msg"
  shows "length (fst (validate_leads_batch E ls)) = length ls \<and>
     fst (validate_leads_batch E ls) ! i = failed_lead (ls ! i) msg \<and>
     dict_get (fst (validate_leads_batch E ls) ! i) ''email_valid'' PNone = PBool False \<and>
     dict_get (fst (validate_leads_batch E ls) ! i) ''phone_valid'' PNone = PBool False \<and>
     dict_get (fst (validate_leads_batch E ls) ! i) ''company_valid'' PNone = PBool False \<and>
     dict_get (fst (validate_leads_batch E ls) ! i) ''validation_error'' PNone = PStr msg \<and>
     (\<forall>k. k \<notin> {''email_valid'', ''phone_valid'', ''company_valid'', ''validation_error''} \<longrightarrow>
        map_of (fst (validate_leads_batch E ls) ! i) k = map_of (ls ! i) k) \<and>
     (\<forall>j < length ls. j \<noteq> i \<longrightarrow>
        fst (validate_leads_batch E ls) ! j = fst (validate_leads_batch E [ls ! j]) ! 0) \<and>
     (\<forall>other. \<forall>j < length ls. j \<noteq> i \<longrightarrow>
        fst (validate_leads_batch E (ls[i := other])) ! j = fst (validate_leads_batch E ls) ! j)"
proof -
  have at_i: "fst (validate_leads_batch E ls) ! i = failed_lead (ls ! i) msg"
    using assms by (simp add: validate_leads_batch_map result_of_def)
  show ?thesis
    unfolding at_i
    by (simp add: failed_lead_flags failed_lead_copy del: insert_iff)
       (simp add: validate_leads_batch_map)
qed

theorem validate_leads_batch_isolation_witness:
  "1 < length [acme_lead, broken_lead] \<and>
   fst (validate_single_lead_async offline_env ([acme_lead, broken_lead] ! 1)) =
     Inl (attribute_error (PInt 5) ''startswith'') \<and>
   fst (validate_leads_batch offline_env [acme_lead, broken_lead]) ! 1 =
     failed_lead ([acme_lead, broken_lead] ! 1) (attribute_error (PInt 5) ''startswith'') \<and>
   dict_get (fst (validate_leads_batch offline_env [acme_lead, broken_lead]) ! 1)
     ''company_valid'' PNone = PBool False \<and>
   fst (validate_leads_batch offline_env [acme_lead, broken_lead]) ! 0 =
     fst (validate_leads_batch offline_env [[acme_lead, broken_lead] ! 0]) ! 0"
proof -
  have inside: "1 < length [acme_lead, broken_lead]"
    by simp
  have raises: "fst (validate_single_lead_async offline_env ([acme_lead, broken_lead] ! 1)) =
     Inl (attribute_error (PInt 5) ''startswith'')"
    by code_simp
  note iso = validate_leads_batch_isolation [OF inside raises]
  from iso have others: "\<forall>j < length [acme_lead, broken_lead]. j \<noteq> 1 \<longrightarrow>
        fst (validate_leads_batch offline_env [acme_lead, broken_lead]) ! j =
        fst (validate_leads_batch offline_env [[acme_lead, broken_lead] ! j]) ! 0"
    by blast
  have "(0::nat) < length [acme_lead, broken_lead]" and "(0::nat) \<noteq> 1"
    by simp_all
  with others have "fst (validate_leads_batch offline_env [acme_lead, broken_lead]) ! 0 =
        fst (validate_leads_batch offline_env [[acme_lead, broken_lead] ! 0]) ! 0"
    by blast
  with iso inside raises show ?thesis
    by blast
qed

subsection \<open>The format check comes first\<close>

lemma validate_phone_events:
  "x \<in> set (snd (validate_phone E phone country)) \<Longrightarrow> \<exists>a b. x = PhoneLibCall a b"
  by (cases phone) (auto simp: Let_def split: if_splits)

lemma check_website_events:
  "x \<in> set (snd (check_website_async E website)) \<Longrightarrow> \<exists>u. x = HttpGet u"
  by (cases website) (auto simp: Let_def split: if_splits)

lemma validate_company_events:
  "x \<in> set (snd (validate_company_async E website company_name)) \<Longrightarrow> \<exists>u. x = HttpGet u"
proof -
  assume x: "x \<in> set (snd (validate_company_async E website company_name))"
  have "snd (validate_company_async E website company_name) = [] \<or>
        snd (validate_company_async E website company_name) = snd (check_website_async E website)"
    by (auto simp: validate_company_async_def Let_def split: if_splits prod.splits sum.splits)
  with x show ?thesis
    using check_website_events[of x E website] by auto
qed

lemma validate_email_invalid_format:
  "\<not> email_pattern_match (lower (strip email)) \<Longrightarrow>
   fst (fst (validate_email E (PStr email))) = False \<and> snd (validate_email E (PStr email)) = []"
  by (simp add: Let_def)

lemma validate_single_events:
  assumes "dict_get lead ''email'' (PStr []) = PStr email"
    and "\<not> email_pattern_match (lower (strip email))"
    and "x \<in> set (snd (validate_single_lead_async E lead))"
  shows "(\<exists>a b. x = PhoneLibCall a b) \<or> (\<exists>u. x = HttpGet u)"
proof -
  let ?ph = "validate_phone E (dict_get lead ''phone'' (PStr [])) (dict_get lead ''country'' (PStr ''US''))"
  let ?co = "validate_company_async E (dict_get lead ''website'' (PStr [])) (dict_get lead ''name'' (PStr []))"
  from assms(1,2) have "snd (validate_email E (dict_get lead ''email'' (PStr []))) = []"
    by (simp add: validate_email_invalid_format)
  with assms(3) have "x \<in> set (snd ?ph) \<or> x \<in> set (snd ?co)"
    by (auto simp: validate_single_lead_async_def Let_def split: prod.splits sum.splits)
  then show ?thesis
    using validate_phone_events validate_company_events by blast
qed

lemma validate_single_email_flag:
  assumes "dict_get lead ''email'' (PStr []) = PStr email"
    and "\<not> email_pattern_match (lower (strip email))"
    and "fst (validate_single_lead_async E lead) = Inr r"
  shows "dict_get r ''email_valid'' PNone = PBool False"
proof -
  from assms(1,2) have "fst (fst (validate_email E (dict_get lead ''email'' (PStr [])))) = False"
    by (simp add: validate_email_invalid_format)
  with assms(3) show ?thesis
    by (auto simp: validate_single_lead_async_def Let_def dict_get_def update_conv'
          map_of_attach_details split: prod.splits sum.splits)
qed

text \<open>
  Claim C9. When the e-mail string of a lead fails the format check (after \<^verbatim>\<open>strip\<close>
  and \<^verbatim>\<open>lower\<close>), \<open>validate_email\<close> answers \<^verbatim>\<open>False\<close> and makes no call at all to an
  external service: neither the e-mail library nor the DNS lookup of
  \<open>check_domain_exists\<close> is reached. The record the batch returns for the lead has
  \<^verbatim>\<open>email_valid\<close> false, and the only external calls made for the lead are those of the
  phone and the website checks.
\<close>

theorem invalid_email_format_short_circuits:
  assumes "dict_get lead ''email'' (PStr []) = PStr email"
    and "\<not> email_pattern_match (lower (strip email))"
  shows "fst (fst (validate_email E (PStr email))) = False \<and>
         snd (validate_email E (PStr email)) = [] \<and>
         dict_get (fst (validate_leads_batch E [lead]) ! 0) ''email_valid'' PNone = PBool False \<and>
         (\<forall>x \<in> set (snd (validate_leads_batch E [lead])).
            (\<exists>a b. x = PhoneLibCall a b) \<or> (\<exists>u. x = HttpGet u))"
proof -
  have flag: "dict_get (result_of E lead) ''email_valid'' PNone = PBool False"
    by (cases "fst (validate_single_lead_async E lead)")
       (simp_all add: result_of_def failed_lead_flags validate_single_email_flag[OF assms])
  have events: "snd (validate_leads_batch E [lead]) = snd (validate_single_lead_async E lead)"
    by (simp add: validate_leads_batch_def)
  show ?thesis
    using validate_email_invalid_format[OF assms(2)] flag validate_single_events[OF assms]
    by (simp add: validate_leads_batch_map events)
qed

theorem invalid_email_format_short_circuits_witness:
  "dict_get acme_lead ''email'' (PStr []) = PStr ''not-an-email'' \<and>
   \<not> email_pattern_match (lower (strip ''not-an-email'')) \<and>
   fst (fst (validate_email offline_env (PStr ''not-an-email''))) = False \<and>
   snd (validate_email offline_env (PStr ''not-an-email'')) = [] \<and>
   dict_get (fst (validate_leads_batch offline_env [acme_lead]) ! 0) ''email_valid'' PNone =
     PBool False \<and>
   snd (validate_leads_batch offline_env [acme_lead]) = []"
proof -
  have email: "dict_get acme_lead ''email'' (PStr []) = PStr ''not-an-email''"
    by code_simp
  have format: "\<not> email_pattern_match (lower (strip ''not-an-email''))"
    by code_simp
  have quiet: "snd (validate_leads_batch offline_env [acme_lead]) = []"
    by code_simp
  from invalid_email_format_short_circuits [OF email format, of offline_env] email format quiet
  show ?thesis
    by blast
qed

subsection \<open>The quality score\<close>













section \<open>Properties of the Pipeline Orchestrator\<close>

subsection \<open>Effects of the Store methods on a campaign\<close>

lemma col_set_columns:
  "col (set_columns bound ts row) k =
     (if k = ''updated_at'' then PStr ts
      else case map_of (rev bound) k of Some v \<Rightarrow> v | None \<Rightarrow> col row k)"
  by (simp add: col_def dict_get_def set_columns_def update_conv' map_of_dict_update map_add_def
        split: option.splits)

lemma map_of_rev_None:
  "k \<notin> fst ` set xs \<Longrightarrow> map_of (rev xs) k = None"
  by (simp add: map_of_eq_None_iff)

lemma sql_update_Inr:
  assumes "sql_update columns ups ts P rows = Inr rows'"
  obtains bound where "adapt_all ups = Inr bound"
    and "rows' = map (\<lambda>row. if P row then set_columns bound ts row else row) rows"
  using assms by (auto simp: sql_update_def split: list.splits sum.splits)

lemma filter_map_update:
  assumes "\<And>r. P (g r) = P r"
  shows "filter P (map (\<lambda>r. if P r then g r else r) rows) = map g (filter P rows)"
  using assms by (induction rows) auto

lemma update_campaign_frame:
  assumes "update_campaign E cid ups s = Inr s'"
  shows "leads s' = leads s" "pipeline_runs s' = pipeline_runs s"
    "lead_seq s' = lead_seq s" "run_seq s' = run_seq s"
  using assms by (auto simp: update_campaign_def split: if_splits sum.splits)

lemma update_campaign_get:
  assumes "update_campaign E cid ups s = Inr s'" and "''id'' \<notin> fst ` set ups" and "ups \<noteq> []"
  obtains bound where "adapt_all ups = Inr bound"
    and "get_campaign cid s' = map_option (set_columns bound (current_timestamp E)) (get_campaign cid s)"
proof -
  from assms(1,3) obtain rows where
    upd: "sql_update campaign_columns ups (current_timestamp E)
            (\<lambda>row. sql_eq (col row ''id'') (PStr cid)) (campaigns s) = Inr rows"
    and s': "s' = s\<lparr>campaigns := rows\<rparr>"
    by (auto simp: update_campaign_def split: sum.splits)
  from upd obtain bound where bound: "adapt_all ups = Inr bound"
    and rows: "rows = map (\<lambda>row. if sql_eq (col row ''id'') (PStr cid)
                 then set_columns bound (current_timestamp E) row else row) (campaigns s)"
    by (rule sql_update_Inr)
  from assms(2) adapt_all_keys[OF bound] have "''id'' \<notin> fst ` set bound"
    by (metis set_map)
  then have keep: "col (set_columns bound ts row) ''id'' = col row ''id''" for ts row
    by (simp add: col_set_columns_other)
  have "filter (\<lambda>row. sql_eq (col row ''id'') (PStr cid)) rows =
        map (set_columns bound (current_timestamp E))
          (filter (\<lambda>row. sql_eq (col row ''id'') (PStr cid)) (campaigns s))"
    unfolding rows by (rule filter_map_update) (simp add: keep)
  then have "get_campaign cid s' =
        map_option (set_columns bound (current_timestamp E)) (get_campaign cid s)"
    by (simp add: get_campaign_def s' split: list.splits)
  with bound show thesis by (rule that)
qed

lemma update_campaign_core:
  assumes "update_campaign E cid ups s = Inr s'"
    and "fst ` set ups \<inter> set core_columns = {}"
  shows "core cid s' = core cid s"
proof (cases "ups = []")
  case True
  with assms(1) show ?thesis by (simp add: update_campaign_def)
next
  case False
  from assms(2) have noid: "''id'' \<notin> fst ` set ups"
    by (auto simp: core_columns_def)
  from assms(1) noid False obtain bound where bound: "adapt_all ups = Inr bound"
    and get: "get_campaign cid s' =
        map_option (set_columns bound (current_timestamp E)) (get_campaign cid s)"
    by (rule update_campaign_get)
  from adapt_all_keys[OF bound] assms(2) have keys: "fst ` set bound \<inter> set core_columns = {}"
    by (metis set_map)
  have "col (set_columns bound ts row) k = col row k" if "k \<in> set core_columns" for ts row k
  proof (rule col_set_columns_other)
    from that keys show "k \<notin> fst ` set bound" by blast
    from that show "k \<noteq> ''updated_at''" by (auto simp: core_columns_def)
  qed
  then show ?thesis
    by (simp add: core_def get option.map_comp comp_def core_columns_def)
qed

lemma update_campaign_ok:
  assumes "set (map fst ups) \<subseteq> set campaign_columns" and "adapt_all ups = Inr bound"
  shows "\<exists>s'. update_campaign E cid ups s = Inr s'"
proof -
  from assms(1) have "filter (\<lambda>k. k \<notin> set campaign_columns) (map fst ups) = []"
    by (auto simp: filter_empty_conv)
  with assms(2) show ?thesis
    by (simp add: update_campaign_def sql_update_def)
qed

lemma record_pipeline_run_frame:
  "campaigns (record_pipeline_run E cid st status d p su er msg s) = campaigns s"
  "leads (record_pipeline_run E cid st status d p su er msg s) = leads s"
  by (simp_all add: record_pipeline_run_def)

lemma get_campaign_cong:
  "campaigns s' = campaigns s \<Longrightarrow> get_campaign cid s' = get_campaign cid s"
  by (simp add: get_campaign_def)

lemma core_cong:
  "campaigns s' = campaigns s \<Longrightarrow> core cid s' = core cid s"
  by (simp add: core_def get_campaign_def)

lemma update_leads_batch_campaigns:
  "update_leads_batch E cid ups s = Inr s' \<Longrightarrow>
   campaigns s' = campaigns s \<and> pipeline_runs s' = pipeline_runs s"
  by (auto simp: update_leads_batch_def split: if_splits sum.splits)

lemma insert_leads_campaigns:
  "insert_leads E cid ls s = Inr s' \<Longrightarrow>
   campaigns s' = campaigns s \<and> pipeline_runs s' = pipeline_runs s"
  by (auto simp: insert_leads_def split: if_splits sum.splits prod.splits)

lemma record_pipeline_run_runs:
  "\<exists>row. pipeline_runs (record_pipeline_run E cid st status d p su er msg s) =
           pipeline_runs s @ [row] \<and> stage_status row = (PStr st, PStr status)"
  by (simp add: record_pipeline_run_def stage_status_def col_def dict_get_def)

lemma record_pipeline_run_core:
  "core cid' (record_pipeline_run E cid st status d p su er msg s) = core cid' s"
  by (rule core_cong) (rule record_pipeline_run_frame)

lemma counter_not_core:
  "fst ` set [(''validated_leads'', v)] \<inter> set core_columns = {}"
  "fst ` set [(''enriched_leads'', v)] \<inter> set core_columns = {}"
  "fst ` set [(''personalized_leads'', v)] \<inter> set core_columns = {}"
  "fst ` set [(''total_leads'', v)] \<inter> set core_columns = {}"
  by (simp_all add: core_columns_def)

lemma write_back_ok:
  assumes wb: "write_back E cid name counters processed success updates s = (eo, s')"
    and counters: "fst ` set counters \<inter> set core_columns = {}"
  shows "core cid s' = core cid s \<and>
        (case eo of
           None \<Rightarrow> \<exists>row. pipeline_runs s' = pipeline_runs s @ [row] \<and>
                     stage_status row = (PStr name, PStr ''completed'')
         | Some e \<Rightarrow> pipeline_runs s' = pipeline_runs s)"
proof (cases "update_leads_batch E cid updates s")
  case (Inl e)
  with wb show ?thesis by (auto simp: write_back_def)
next
  case (Inr s1)
  note batch = update_leads_batch_campaigns[OF Inr]
  show ?thesis
  proof (cases "update_campaign E cid counters s1")
    case (Inl e)
    with wb Inr have "eo = Some e" "s' = s1" by (simp_all add: write_back_def)
    with batch show ?thesis using core_cong[of s1 s cid] by simp
  next
    case s2: (Inr s2)
    with wb Inr have eo: "eo = None"
      and s': "s' = record_pipeline_run E cid name ''completed'' (Some (elapsed E)) processed
                  success 0 None s2"
      by (simp_all add: write_back_def)
    have "core cid s2 = core cid s"
      using update_campaign_core[OF s2 counters] batch core_cong[of s1 s cid] by simp
    moreover have "pipeline_runs s2 = pipeline_runs s"
      using update_campaign_frame(2)[OF s2] batch by simp
    ultimately show ?thesis
      unfolding eo s' using record_pipeline_run_runs[of E cid name "''completed''" _ _ _ _ _ s2]
      by (simp add: record_pipeline_run_core)
  qed
qed

lemma block_ok_build:
  assumes "\<And>s. b s =
             (case build of
                Inl e \<Rightarrow> (Some e, s)
              | Inr updates \<Rightarrow> write_back E cid name (counters updates) processed
                                (success updates) updates s)"
    and "\<And>updates. fst ` set (counters updates) \<inter> set core_columns = {}"
  shows "block_ok cid name b"
  unfolding block_ok_def
proof (intro allI impI)
  fix s eo s' assume b: "b s = (eo, s')"
  show "core cid s' = core cid s \<and>
        (case eo of
           None \<Rightarrow> \<exists>row. pipeline_runs s' = pipeline_runs s @ [row] \<and>
                     stage_status row = (PStr name, PStr ''completed'')
         | Some e \<Rightarrow> pipeline_runs s' = pipeline_runs s)"
  proof (cases build)
    case (Inl e)
    with b assms(1)[of s] show ?thesis by auto
  next
    case (Inr updates)
    with b assms(1)[of s] have "write_back E cid name (counters updates) processed
                                (success updates) updates s = (eo, s')" by simp
    from write_back_ok[OF this assms(2)] show ?thesis .
  qed
qed

lemma validate_leads_block_ok:
  "block_ok cid ''validation'' (validate_leads_block E cid ls)"
proof (rule block_ok_build[where E = E
        and build = "build_updates validation_update (fst (validate_leads_batch E ls))"
        and counters = "\<lambda>updates. [(''validated_leads'',
            PInt (int (length (filter (\<lambda>lead. truthy (dict_get lead ''email_valid'' (PBool False)))
                                 (fst (validate_leads_batch E ls))))))]"
        and success = "\<lambda>updates. int (length (fst (validate_leads_batch E ls)))"
        and processed = "int (length ls)"])
  show "validate_leads_block E cid ls s =
         (case build_updates validation_update (fst (validate_leads_batch E ls)) of
            Inl e \<Rightarrow> (Some e, s)
          | Inr updates \<Rightarrow>
              write_back E cid ''validation''
                [(''validated_leads'',
                  PInt (int (length (filter (\<lambda>lead. truthy (dict_get lead ''email_valid'' (PBool False)))
                                 (fst (validate_leads_batch E ls))))))]
                (int (length ls)) (int (length (fst (validate_leads_batch E ls)))) updates s)" for s
    unfolding validate_leads_block_def write_back_def Let_def by (rule refl)
qed (rule counter_not_core)

lemma enrich_block_ok:
  "block_ok cid ''linkedin_enrichment'' (enrich_block E cid ls)"
proof (rule block_ok_build[where E = E and build = "build_updates linkedin_update ls"
        and counters = "\<lambda>updates. [(''enriched_leads'', PInt (int (length updates)))]"
        and success = "\<lambda>updates. int (length updates)"
        and processed = "int (length ls)"])
  show "enrich_block E cid ls s =
         (case build_updates linkedin_update ls of
            Inl e \<Rightarrow> (Some e, s)
          | Inr updates \<Rightarrow>
              write_back E cid ''linkedin_enrichment''
                [(''enriched_leads'', PInt (int (length updates)))]
                (int (length ls)) (int (length updates)) updates s)" for s
    unfolding enrich_block_def write_back_def by (rule refl)
qed (rule counter_not_core)

lemma update_campaign_nothing: "update_campaign E cid [] s = Inr s"
  by (simp add: update_campaign_def)

lemma research_block_ok:
  "block_ok cid ''research'' (research_block E cid ls)"
proof (rule block_ok_build[where E = E and build = "build_updates (research_update E) ls"
        and counters = "\<lambda>updates. []"
        and success = "\<lambda>updates. int (length updates)"
        and processed = "int (length ls)"])
  show "research_block E cid ls s =
         (case build_updates (research_update E) ls of
            Inl e \<Rightarrow> (Some e, s)
          | Inr updates \<Rightarrow>
              write_back E cid ''research'' [] (int (length ls)) (int (length updates))
                updates s)" for s
    unfolding research_block_def write_back_def update_campaign_nothing sum.case
    by (rule refl)
qed simp

lemma personalize_block_ok:
  "block_ok cid ''personalization'' (personalize_block E cid ls)"
proof (rule block_ok_build[where E = E and build = "build_updates (personalization_update E) ls"
        and counters = "\<lambda>updates. [(''personalized_leads'', PInt (int (length updates)))]"
        and success = "\<lambda>updates. int (length updates)"
        and processed = "int (length ls)"])
  show "personalize_block E cid ls s =
         (case build_updates (personalization_update E) ls of
            Inl e \<Rightarrow> (Some e, s)
          | Inr updates \<Rightarrow>
              write_back E cid ''personalization''
                [(''personalized_leads'', PInt (int (length updates)))]
                (int (length ls)) (int (length updates)) updates s)" for s
    unfolding personalize_block_def write_back_def by (rule refl)
qed (rule counter_not_core)

lemma stage_handler_ok:
  assumes "block_ok cid name b" and "audit_name st = Some name"
    and "stage_handler E cid name (b s) = (r, s')"
  shows "core cid s' = core cid s \<and>
        (\<exists>rows. pipeline_runs s' = pipeline_runs s @ rows \<and>
                map stage_status rows = audited (st, r))"
proof (cases "b s")
  case (Pair eo s1)
  from assms(1) Pair have core: "core cid s1 = core cid s"
    and runs: "case eo of
           None \<Rightarrow> \<exists>row. pipeline_runs s1 = pipeline_runs s @ [row] \<and>
                     stage_status row = (PStr name, PStr ''completed'')
         | Some e \<Rightarrow> pipeline_runs s1 = pipeline_runs s"
    unfolding block_ok_def by blast+
  show ?thesis
  proof (cases eo)
    case None
    with assms(3) Pair have "r = Completed" "s' = s1"
      by (simp_all add: stage_handler_def)
    with core runs None assms(2) show ?thesis by auto
  next
    case (Some e)
    with assms(3) Pair have r: "r = Failed e"
      and s': "s' = record_pipeline_run E cid name ''failed'' (Some (elapsed E)) 0 0 0 (Some e) s1"
      by (simp_all add: stage_handler_def)
    from record_pipeline_run_runs[of E cid name "''failed''" "Some (elapsed E)" 0 0 0 "Some e" s1]
    obtain row where "pipeline_runs s' = pipeline_runs s1 @ [row]"
      and "stage_status row = (PStr name, PStr ''failed'')"
      unfolding s' by blast
    with runs Some have "pipeline_runs s' = pipeline_runs s @ [row] \<and>
        map stage_status [row] = audited (st, r)"
      using assms(2) by (simp add: r)
    then have "\<exists>rows. pipeline_runs s' = pipeline_runs s @ rows \<and>
        map stage_status rows = audited (st, r)" by blast
    moreover have "core cid s' = core cid s"
      unfolding s' using core by (simp add: record_pipeline_run_core)
    ultimately show ?thesis by simp
  qed
qed

lemma stage_okI:
  assumes "\<And>ls. block_ok cid name (b ls)" and "audit_name st = Some name"
    and "\<And>s. f s =
           (case read s of
              Inl e \<Rightarrow> (Aborted e, s)
            | Inr ls \<Rightarrow> if ls = [] then (Skipped, s) else stage_handler E cid name (b ls s))"
  shows "stage_ok cid st f"
  unfolding stage_ok_def
proof (intro allI impI)
  fix s r s' assume f: "f s = (r, s')"
  show "core cid s' = core cid s \<and>
        (\<exists>rows. pipeline_runs s' = pipeline_runs s @ rows \<and>
                map stage_status rows = audited (st, r))"
  proof (cases "read s")
    case (Inl e)
    with f assms(3)[of s] show ?thesis by auto
  next
    case (Inr ls)
    show ?thesis
    proof (cases "ls = []")
      case True
      with Inr f assms(3)[of s] show ?thesis by auto
    next
      case False
      with Inr f assms(3)[of s] have "stage_handler E cid name (b ls s) = (r, s')" by simp
      from stage_handler_ok[OF assms(1) assms(2) this] show ?thesis .
    qed
  qed
qed

lemma validate_leads_ok: "stage_ok cid Validation (validate_leads E cid)"
  by (rule stage_okI[where E = E and b = "validate_leads_block E cid"
        and read = "get_leads_by_campaign E cid None"])
     (simp_all add: validate_leads_block_ok validate_leads_def)

lemma enrich_linkedin_profiles_ok:
  "stage_ok cid LinkedinEnrichment (enrich_linkedin_profiles E cid)"
  by (rule stage_okI[where E = E and b = "enrich_block E cid"
        and read = "get_leads_by_campaign E cid (Some ''validated'')"])
     (simp_all add: enrich_block_ok enrich_linkedin_profiles_def)

lemma research_companies_ok: "stage_ok cid Research (research_companies E cid)"
  by (rule stage_okI[where E = E and b = "research_block E cid"
        and read = "get_leads_by_campaign E cid (Some ''enriched'')"])
     (simp_all add: research_block_ok research_companies_def)

lemma personalize_messages_ok:
  "stage_ok cid Personalization (personalize_messages E cid)"
  by (rule stage_okI[where E = E and b = "personalize_block E cid"
        and read = "get_leads_by_campaign E cid (Some ''researched'')"])
     (simp_all add: personalize_block_ok personalize_messages_def)

lemma gated_stages_ok:
  "list_all (\<lambda>(enabled, st, f). stage_ok cid st f) (gated_stages E cfg cid)"
  by (simp add: gated_stages_def validate_leads_ok enrich_linkedin_profiles_ok
        research_companies_ok personalize_messages_ok)

lemma run_gated_stages_ok:
  assumes "list_all (\<lambda>(enabled, st, f). stage_ok cid st f) l"
    and "run_gated_stages l s tr = (eo, s', tr')"
  shows "core cid s' = core cid s \<and>
        (\<exists>tr2 rows. tr' = tr @ tr2 \<and> pipeline_runs s' = pipeline_runs s @ rows \<and>
                    map stage_status rows = concat (map audited tr2))"
  using assms
proof (induction l arbitrary: s tr)
  case Nil
  then show ?case by simp
next
  case (Cons x l)
  obtain enabled st f where x: "x = (enabled, st, f)" by (cases x)
  from Cons.prems(1) x have ok: "stage_ok cid st f"
    and rest: "list_all (\<lambda>(enabled, st, f). stage_ok cid st f) l" by simp_all
  show ?case
  proof (cases enabled)
    case False
    with Cons.prems(2) x have "run_gated_stages l s tr = (eo, s', tr')" by simp
    from Cons.IH[OF rest this] show ?thesis .
  next
    case True
    obtain r s1 where fs: "f s = (r, s1)" by (cases "f s")
    from ok fs obtain rows1 where core1: "core cid s1 = core cid s"
      and runs1: "pipeline_runs s1 = pipeline_runs s @ rows1"
      and aud1: "map stage_status rows1 = audited (st, r)"
      unfolding stage_ok_def by blast
    show ?thesis
    proof (cases "raised r")
      case (Some e)
      with Cons.prems(2) x True fs have "s' = s1" "tr' = tr @ [(st, r)]" by simp_all
      with core1 runs1 aud1 show ?thesis by simp
    next
      case None
      with Cons.prems(2) x True fs
      have "run_gated_stages l s1 (tr @ [(st, r)]) = (eo, s', tr')" by simp
      from Cons.IH[OF rest this] obtain tr2 rows where
        "core cid s' = core cid s1" "tr' = (tr @ [(st, r)]) @ tr2"
        "pipeline_runs s' = pipeline_runs s1 @ rows"
        "map stage_status rows = concat (map audited tr2)" by blast
      with core1 runs1 aud1 show ?thesis
        by (intro conjI exI[of _ "(st, r) # tr2"] exI[of _ "rows1 @ rows"]) simp_all
    qed
  qed
qed

lemma update_campaign_literal_ok:
  "\<exists>s1. update_campaign E cid [(''status'', PStr x)] s = Inr s1"
  "\<exists>s1. update_campaign E cid [(''status'', PStr x), (''completed_at'', PStr y)] s = Inr s1"
  "\<exists>s1. update_campaign E cid [(''status'', PStr x), (''error_message'', PStr y)] s = Inr s1"
  by (rule update_campaign_ok; simp add: campaign_columns_def)+

lemma core_after_update:
  assumes "update_campaign E cid ups s = Inr s'" and "adapt_all ups = Inr ups"
    and "''id'' \<notin> fst ` set ups" and "ups \<noteq> []"
  shows "core cid s' =
           map_option
             (\<lambda>(st, ca, em, bt, loc).
                (case map_of (rev ups) ''status'' of Some v \<Rightarrow> v | None \<Rightarrow> st,
                 case map_of (rev ups) ''completed_at'' of Some v \<Rightarrow> v | None \<Rightarrow> ca,
                 case map_of (rev ups) ''error_message'' of Some v \<Rightarrow> v | None \<Rightarrow> em,
                 case map_of (rev ups) ''business_type'' of Some v \<Rightarrow> v | None \<Rightarrow> bt,
                 case map_of (rev ups) ''location'' of Some v \<Rightarrow> v | None \<Rightarrow> loc))
             (core cid s)"
proof -
  from assms(1,3,4) obtain bound where "adapt_all ups = Inr bound"
    and get: "get_campaign cid s' =
        map_option (set_columns bound (current_timestamp E)) (get_campaign cid s)"
    by (rule update_campaign_get)
  with assms(2) have "bound = ups" by simp
  with get show ?thesis
    by (cases "get_campaign cid s") (simp_all add: core_def col_set_columns)
qed

lemma core_running:
  "update_campaign E cid [(''status'', PStr x)] s = Inr s' \<Longrightarrow>
   core cid s' = map_option (\<lambda>(st, rest). (PStr x, rest)) (core cid s)"
  by (drule core_after_update) (auto simp: option.map_comp comp_def split_def intro!: map_option_cong)

lemma core_completed:
  "update_campaign E cid [(''status'', PStr x), (''completed_at'', PStr y)] s = Inr s' \<Longrightarrow>
   core cid s' = map_option (\<lambda>(st, ca, rest). (PStr x, PStr y, rest)) (core cid s)"
  by (drule core_after_update) (auto simp: option.map_comp comp_def split_def intro!: map_option_cong)

lemma core_failed:
  "update_campaign E cid [(''status'', PStr x), (''error_message'', PStr y)] s = Inr s' \<Longrightarrow>
   core cid s' = map_option (\<lambda>(st, ca, em, rest). (PStr x, ca, PStr y, rest)) (core cid s)"
  by (drule core_after_update) (auto simp: option.map_comp comp_def split_def intro!: map_option_cong)

lemma scrape_businesses_effect:
  assumes "scrape_businesses E cid bt loc n s = (r, s')"
  shows "r = search_businesses E bt loc n \<and> core cid s' = core cid s \<and> leads s' = leads s \<and>
         (\<exists>row. pipeline_runs s' = pipeline_runs s @ [row] \<and>
                stage_status row =
                  (PStr ''scraping'', PStr (if isl r then ''failed'' else ''completed'')))"
proof (cases "search_businesses E bt loc n")
  case (Inl e)
  with assms have r: "r = Inl e"
    and s': "s' = record_pipeline_run E cid ''scraping'' ''failed'' None 0 0 0 (Some e) s"
    by (simp_all add: scrape_businesses_def)
  show ?thesis
    unfolding r s'
    using record_pipeline_run_runs[of E cid "''scraping''" "''failed''" None 0 0 0 "Some e" s] Inl
    by (simp add: record_pipeline_run_core record_pipeline_run_frame)
next
  case (Inr bs)
  with assms have r: "r = Inr bs"
    and s': "s' = record_pipeline_run E cid ''scraping'' ''completed'' None
                    (int (length bs)) (int (length bs)) 0 None s"
    by (simp_all add: scrape_businesses_def)
  show ?thesis
    unfolding r s'
    using record_pipeline_run_runs[of E cid "''scraping''" "''completed''" None
            "int (length bs)" "int (length bs)" 0 None s] Inr
    by (simp add: record_pipeline_run_core record_pipeline_run_frame)
qed

lemma export_and_complete_effect:
  assumes "export_and_complete E cid bs s tr = (res, s', tr')"
  shows "pipeline_runs s' = pipeline_runs s \<and> (\<exists>r. tr' = tr @ [(Export, r)]) \<and>
         (case res of
            Inl e \<Rightarrow> s' = s
          | Inr summary \<Rightarrow>
              update_campaign E cid
                [(''status'', PStr ''completed''), (''completed_at'', PStr (now E))] s = Inr s')"
proof (cases "export_results E cid s")
  case (Inl e)
  with assms show ?thesis by (auto simp: export_and_complete_def)
next
  case (Inr csv)
  obtain s1 where s1: "update_campaign E cid
                [(''status'', PStr ''completed''), (''completed_at'', PStr (now E))] s = Inr s1"
    using update_campaign_literal_ok(2) by blast
  with assms Inr have "s' = s1" "\<not> isl res" "tr' = tr @ [(Export, Completed)]"
    by (auto simp: export_and_complete_def Let_def)
  with s1 update_campaign_frame(2)[OF s1] show ?thesis
    by (cases res) auto
qed

lemma audited_Export: "audited (Export, r) = []"
  by (cases r) simp_all

lemma pipeline_block_effect:
  assumes pb: "pipeline_block E cfg cid bt loc n s = (res, s', tr)"
  shows "\<exists>s1 rows.
      update_campaign E cid [(''status'', PStr ''running'')] s = Inr s1 \<and>
      pipeline_runs s' = pipeline_runs s @ rows \<and>
      map stage_status rows = concat (map audited tr) \<and>
      (case res of
         Inl e \<Rightarrow> core cid s' = core cid s1
       | Inr summary \<Rightarrow>
           \<exists>s5. core cid s5 = core cid s1 \<and>
                update_campaign E cid
                  [(''status'', PStr ''completed''), (''completed_at'', PStr (now E))] s5 =
                Inr s')"
proof -
  obtain s1 where s1: "update_campaign E cid [(''status'', PStr ''running'')] s = Inr s1"
    using update_campaign_literal_ok(1) by blast
  note runs1 = update_campaign_frame(2)[OF s1]
  have raise: ?thesis
    if "res = Inl e" "core cid s' = core cid s1" "pipeline_runs s' = pipeline_runs s @ rows"
      "map stage_status rows = concat (map audited tr)" for e rows
    using that s1 by auto
  obtain r s2 where sc: "scrape_businesses E cid bt loc n s1 = (r, s2)"
    by (cases "scrape_businesses E cid bt loc n s1")
  from scrape_businesses_effect[OF sc] obtain row0 where
    core2: "core cid s2 = core cid s1"
    and runs2: "pipeline_runs s2 = pipeline_runs s @ [row0]"
    and row0: "stage_status row0 =
                 (PStr ''scraping'', PStr (if isl r then ''failed'' else ''completed''))"
    using runs1 by auto
  show ?thesis
  proof (cases r)
    case (Inl e)
    with pb s1 sc have "res = Inl e" "s' = s2" "tr = [(Scraping, Failed e)]"
      by (simp_all add: pipeline_block_def)
    with core2 runs2 row0 Inl show ?thesis
      by (intro raise[of e "[row0]"]) simp_all
  next
    case (Inr bs)
    with row0 have row0: "map stage_status [row0] = concat (map audited [(Scraping, Completed)])"
      by simp
    show ?thesis
    proof (cases "bs = []")
      case True
      with pb s1 sc Inr have "res = Inl ''No businesses found''" "s' = s2"
        "tr = [(Scraping, Completed)]"
        by (simp_all add: pipeline_block_def)
      with core2 runs2 row0 show ?thesis
        by (intro raise[of "''No businesses found''" "[row0]"]) simp_all
    next
      case False
      note bs = this
      show ?thesis
      proof (cases "insert_leads E cid bs s2")
        case (Inl e)
        with pb s1 sc Inr bs have "res = Inl e" "s' = s2" "tr = [(Scraping, Completed)]"
          by (simp_all add: pipeline_block_def)
        with core2 runs2 row0 show ?thesis
          by (intro raise[of e "[row0]"]) simp_all
      next
        case s3: (Inr s3)
        from insert_leads_campaigns[OF s3] core_cong[of s3 s2 cid]
        have core3: "core cid s3 = core cid s1" and runs3: "pipeline_runs s3 = pipeline_runs s @ [row0]"
          using core2 runs2 by simp_all
        show ?thesis
        proof (cases "update_campaign E cid [(''total_leads'', PInt (int (length bs)))] s3")
          case (Inl e)
          with pb s1 sc Inr bs s3 have "res = Inl e" "s' = s3" "tr = [(Scraping, Completed)]"
            by (simp_all add: pipeline_block_def)
          with core3 runs3 row0 show ?thesis
            by (intro raise[of e "[row0]"]) simp_all
        next
          case s4: (Inr s4)
          from update_campaign_core[OF s4 counter_not_core(4)] update_campaign_frame(2)[OF s4]
          have core4: "core cid s4 = core cid s1"
            and runs4: "pipeline_runs s4 = pipeline_runs s @ [row0]"
            using core3 runs3 by simp_all
          obtain eo s5 tr5 where g: "run_gated_stages (gated_stages E cfg cid) s4
                                   [(Scraping, Completed)] = (eo, s5, tr5)"
            by (cases "run_gated_stages (gated_stages E cfg cid) s4 [(Scraping, Completed)]")
          from run_gated_stages_ok[OF gated_stages_ok g] obtain tr2 rows2 where
            core5: "core cid s5 = core cid s1"
            and tr5: "tr5 = [(Scraping, Completed)] @ tr2"
            and runs5: "pipeline_runs s5 = pipeline_runs s @ [row0] @ rows2"
            and aud5: "map stage_status rows2 = concat (map audited tr2)"
            using core4 runs4 by auto
          from row0 aud5 tr5
          have aud: "map stage_status ([row0] @ rows2) = concat (map audited tr5)"
            by simp
          show ?thesis
          proof (cases eo)
            case (Some e)
            with pb s1 sc Inr bs s3 s4 g have "res = Inl e" "s' = s5" "tr = tr5"
              by (simp_all add: pipeline_block_def)
            with core5 runs5 aud show ?thesis
              by (intro raise[of e "[row0] @ rows2"]) simp_all
          next
            case None
            with pb s1 sc Inr bs s3 s4 g
            have ex: "export_and_complete E cid bs s5 tr5 = (res, s', tr)"
              by (simp add: pipeline_block_def)
            from export_and_complete_effect[OF ex] obtain rx where
              runs': "pipeline_runs s' = pipeline_runs s5" and tr: "tr = tr5 @ [(Export, rx)]"
              and fin: "case res of
                  Inl e \<Rightarrow> s' = s5
                | Inr summary \<Rightarrow>
                    update_campaign E cid
                      [(''status'', PStr ''completed''), (''completed_at'', PStr (now E))] s5 =
                    Inr s'"
              by blast
            from aud tr have aud': "map stage_status ([row0] @ rows2) = concat (map audited tr)"
              by (simp add: audited_Export)
            show ?thesis
            proof (cases res)
              case (Inl e)
              with fin core5 runs' runs5 aud' show ?thesis
                by (intro raise[of e "[row0] @ rows2"]) simp_all
            next
              case (Inr summary)
              with fin core5 runs' runs5 aud' s1 show ?thesis
                by (intro exI[of _ s1] exI[of _ "[row0] @ rows2"]) auto
            qed
          qed
        qed
      qed
    qed
  qed
qed

end
